theory Spec2Isabelle
  imports Complex_Main "HOL-Library.Sublist" "HOL-Library.Log_Nat" "HOL-Library.Product_Lexorder"
begin

chapter \<open>Lucid Clinic: the dashboard's API client and pages, and the re-engagement core\<close>

text \<open>
  The repository's sources are the Next.js dashboard: the API client (\<^verbatim>\<open>lib/api.ts\<close>)
  and the pages that call it. They are embedded here function by function. The
  re-engagement core behind the HTTP API (scoring, queue, eligibility, dispatch) is not
  among the sources; the parts of it that are needed are modelled from the specification
  and marked as such.
\<close>

section \<open>JavaScript values\<close>

text \<open>
  Strings are sequences of code units; \<^typ>\<open>char\<close> covers the code units below 256.
  JSON values keep the insertion order of object properties. A property whose value is
  \<^verbatim>\<open>undefined\<close> is left out by \<^verbatim>\<open>JSON.stringify\<close>, so an optional property is a
  list of at most one binding (\<open>opt\<close>). A request body is kept as the JSON value that
  \<^verbatim>\<open>JSON.stringify\<close> serialises. The numbers that occur in bodies and queries are
  integers (page numbers, scores).
\<close>

datatype json =
    JNull
  | JBool bool
  | JNum int
  | JStr string
  | JArr "json list"
  | JObj "(string \<times> json) list"

fun has_field :: "string \<Rightarrow> json \<Rightarrow> bool" where
  "has_field k (JObj kvs) = list_ex (\<lambda>(k', v). k' = k \<or> has_field k v) kvs"
| "has_field k (JArr vs) = list_ex (has_field k) vs"
| "has_field k _ = False"

definition opt :: "string \<Rightarrow> json option \<Rightarrow> (string \<times> json) list" where
  "opt k v = (case v of None \<Rightarrow> [] | Some j \<Rightarrow> [(k, j)])"

text \<open>\<^verbatim>\<open>s || undefined\<close>: the empty string is falsy.\<close>

definition or_undefined :: "string \<Rightarrow> string option" where
  "or_undefined s = (if s = [] then None else Some s)"

text \<open>
  \<^verbatim>\<open>String(n)\<close> and \<^verbatim>\<open>`${n}`\<close> for an integral number: its decimal digits.
\<close>

fun show_nat :: "nat \<Rightarrow> string" where
  "show_nat n =
     (if n < 10 then [''0123456789'' ! n]
      else show_nat (n div 10) @ [''0123456789'' ! (n mod 10)])"

declare show_nat.simps [simp del]

definition show_int :: "int \<Rightarrow> string" where
  "show_int i = (if i < 0 then CHR ''-'' # show_nat (nat (- i)) else show_nat (nat i))"

text \<open>
  A number that the client prints into a path (\<^verbatim>\<open>`${id}`\<close>). A whole number of
  magnitude below \<open>10 ^ 21\<close> prints as its decimal digits; any other number (\<^verbatim>\<open>NaN\<close>, an
  infinity, a fraction, a larger magnitude) is kept as the text that it prints as, such
  as \<^verbatim>\<open>NaN\<close>, \<^verbatim>\<open>1.5\<close> or \<^verbatim>\<open>1e+21\<close>. \<^verbatim>\<open>Number(id)\<close> of a route's \<^verbatim>\<open>id\<close> can be any
  of them.
\<close>

datatype number = Whole int | Printed string

fun print_number :: "number \<Rightarrow> string" where
  "print_number (Whole i) = show_int i"
| "print_number (Printed s) = s"

text \<open>
  \<^verbatim>\<open>String.prototype.trim\<close> strips white space and line terminators from both ends.
  Of those, the code units below 256 are TAB, LF, VT, FF, CR, SP and NBSP.
\<close>

definition js_whitespace :: "char \<Rightarrow> bool" where
  "js_whitespace c = (of_char c \<in> set [9, 10, 11, 12, 13, 32, 160 :: nat])"

definition trim :: "string \<Rightarrow> string" where
  "trim s = rev (dropWhile js_whitespace (rev (dropWhile js_whitespace s)))"

text \<open>
  The values a rejected promise of the client carries: all are \<^verbatim>\<open>Error\<close> objects
  (\<^verbatim>\<open>e instanceof Error\<close> holds), told apart by their class.
\<close>

datatype js_error = Error string | TypeError string | SyntaxError string

fun message :: "js_error \<Rightarrow> string" where
  "message (Error m) = m"
| "message (TypeError m) = m"
| "message (SyntaxError m) = m"

section \<open>The API client\<close>

subsection \<open>fetchApi\<close>

text \<open>
  A request is what \<^verbatim>\<open>fetchApi\<close> hands to \<^verbatim>\<open>fetch\<close>: the path (appended to the
  configured \<^verbatim>\<open>API_URL\<close>), the entries of the \<^verbatim>\<open>URLSearchParams\<close> that follow the
  \<^verbatim>\<open>?\<close>, the method, the headers and the body. What \<^verbatim>\<open>fetch\<close> gives back is either a
  rejection (no response at all) or a response; \<open>res_text\<close> is what \<^verbatim>\<open>res.text()\<close>
  resolves to and \<open>res_json\<close> what \<^verbatim>\<open>res.json()\<close> settles to: the parsed body, typed
  as the caller's \<^verbatim>\<open>T\<close>, or the message of the \<^verbatim>\<open>SyntaxError\<close> for a body that is not
  JSON.
\<close>

record request =
  req_method :: string
  req_path :: string
  req_query :: "string \<rightharpoonup> string"
  req_headers :: "(string \<times> string) list"
  req_body :: "json option"

record 'a response =
  res_ok :: bool
  res_status :: nat
  res_text :: string
  res_json :: "string + 'a"

datatype 'a fetched = NoResponse string | Response "'a response"

definition fetchApi :: "(request \<Rightarrow> 'a fetched) \<Rightarrow> request \<Rightarrow> js_error + 'a" where
  "fetchApi fetch init =
     (case fetch (init\<lparr>req_headers := (''Content-Type'', ''application/json'') # req_headers init\<rparr>) of
        NoResponse m \<Rightarrow> Inl (TypeError m)
      | Response res \<Rightarrow>
          if \<not> res_ok res
          then Inl (Error (''API error '' @ show_nat (res_status res) @ '': '' @ res_text res))
          else (case res_json res of Inl m \<Rightarrow> Inl (SyntaxError m) | Inr v \<Rightarrow> Inr v))"

subsection \<open>The exported functions\<close>

text \<open>
  Each exported function is the path and \<^verbatim>\<open>init\<close> it passes to \<^verbatim>\<open>fetchApi\<close>; the
  caller's \<^verbatim>\<open>await\<close> is \<open>fetchApi fetch\<close> applied to it. A \<^verbatim>\<open>params\<close> record maps
  a key to its value, \<open>None\<close> for \<^verbatim>\<open>undefined\<close>.
\<close>

datatype param = PStr string | PNum int | PBool bool

fun js_String :: "param \<Rightarrow> string" where
  "js_String (PStr s) = s"
| "js_String (PNum n) = show_int n"
| "js_String (PBool b) = (if b then ''true'' else ''false'')"

definition search_params :: "(string \<rightharpoonup> param) \<Rightarrow> (string \<rightharpoonup> string)" where
  "search_params params =
     (\<lambda>k. case params k of
            None \<Rightarrow> None
          | Some v \<Rightarrow> if v = PStr [] then None else Some (js_String v))"

definition GET :: "string \<Rightarrow> (string \<rightharpoonup> string) \<Rightarrow> request" where
  "GET path qs =
     \<lparr>req_method = ''GET'', req_path = path, req_query = qs, req_headers = [], req_body = None\<rparr>"

definition POST :: "string \<Rightarrow> json option \<Rightarrow> request" where
  "POST path b =
     \<lparr>req_method = ''POST'', req_path = path, req_query = Map.empty, req_headers = [],
      req_body = b\<rparr>"

definition getPatients :: "(string \<rightharpoonup> param) \<Rightarrow> request" where
  "getPatients params = GET ''/api/patients'' (search_params params)"

definition getPatient :: "number \<Rightarrow> request" where
  "getPatient i = GET (''/api/patients/'' @ print_number i) Map.empty"

definition getQueue :: "(string \<rightharpoonup> param) \<Rightarrow> request" where
  "getQueue params = GET ''/api/queue'' (search_params params)"

definition updateQueueStatus :: "number \<Rightarrow> string \<Rightarrow> request" where
  "updateQueueStatus i status =
     \<lparr>req_method = ''PATCH'', req_path = ''/api/queue/'' @ print_number i @ ''/status'',
      req_query = Map.empty, req_headers = [],
      req_body = Some (JObj [(''status'', JStr status)])\<rparr>"

definition getAnalyticsOverview :: request where
  "getAnalyticsOverview = GET ''/api/analytics/overview'' Map.empty"

definition getContactCoverage :: request where
  "getContactCoverage = GET ''/api/analytics/contact-coverage'' Map.empty"

definition getAgentStatus :: request where
  "getAgentStatus = GET ''/api/agent/status'' Map.empty"

definition getAgentSessions :: "(string \<rightharpoonup> param) \<Rightarrow> request" where
  "getAgentSessions params = GET ''/api/agent/sessions'' (search_params params)"

definition getAgentSession :: "number \<Rightarrow> request" where
  "getAgentSession i = GET (''/api/agent/sessions/'' @ print_number i) Map.empty"

definition getSessionScreenshots :: "number \<Rightarrow> request" where
  "getSessionScreenshots sessionId =
     GET (''/api/agent/sessions/'' @ print_number sessionId @ ''/screenshots'') Map.empty"

definition submitAgentTask :: "string \<Rightarrow> json \<Rightarrow> bool \<Rightarrow> request" where
  "submitAgentTask taskType params confirmed =
     POST ''/api/agent/tasks''
       (Some (JObj [(''task_type'', JStr taskType), (''params'', params),
                    (''confirmed'', JBool confirmed)]))"

definition confirmAgentTask :: "number \<Rightarrow> request" where
  "confirmAgentTask sessionId =
     POST (''/api/agent/tasks/'' @ print_number sessionId @ ''/confirm'') None"

definition cancelAgentTask :: "number \<Rightarrow> request" where
  "cancelAgentTask sessionId =
     POST (''/api/agent/tasks/'' @ print_number sessionId @ ''/cancel'') None"

definition getCommsStatus :: request where
  "getCommsStatus = GET ''/api/campaigns/status'' Map.empty"

definition getCampaigns :: "(string \<rightharpoonup> param) \<Rightarrow> request" where
  "getCampaigns params = GET ''/api/campaigns'' (search_params params)"

definition getCampaign :: "number \<Rightarrow> request" where
  "getCampaign i = GET (''/api/campaigns/'' @ print_number i) Map.empty"

text \<open>
  \<^verbatim>\<open>createCampaign\<close> serialises the object it is handed as it is: \<open>data\<close> is the list
  of that object's properties, whichever they are. Its parameter's type names six of
  them, and a type is not checked when the code runs.
\<close>

definition createCampaign :: "(string \<times> json) list \<Rightarrow> request" where
  "createCampaign data = POST ''/api/campaigns'' (Some (JObj data))"

definition sendCampaign :: "number \<Rightarrow> request" where
  "sendCampaign i = POST (''/api/campaigns/'' @ print_number i @ ''/send'') None"

definition getCampaignMessages :: "number \<Rightarrow> (string \<rightharpoonup> param) \<Rightarrow> request" where
  "getCampaignMessages campaignId params =
     GET (''/api/campaigns/'' @ print_number campaignId @ ''/messages'') (search_params params)"

text \<open>The read model of a campaign (\<^verbatim>\<open>interface Campaign\<close>).\<close>

record Campaign =
  c_id :: int
  c_name :: string
  c_channel :: string
  c_tier_filter :: "string option"
  c_score_min :: int
  c_message_template :: string
  c_subject :: "string option"
  c_status :: string
  c_total_recipients :: int
  c_sent_count :: int
  c_failed_count :: int
  c_responded_count :: int
  c_booked_count :: int
  c_created_at :: "string option"
  c_sent_at :: "string option"

section \<open>The agent page\<close>

record ('s, 'l) agent_page =
  selectedTask :: string
  accountId :: string
  apptDate :: string
  apptTime :: string
  provider :: string
  updateEmail :: string
  updatePhone :: string
  updateAddress :: string
  ag_status :: "'s option"
  ag_sessions :: "'l option"
  ag_submitting :: bool
  ag_error :: string

definition buildParams :: "('s, 'l) agent_page \<Rightarrow> json" where
  "buildParams p =
     (if selectedTask p = ''sync_patients'' then JObj []
      else if selectedTask p = ''book_appointment'' then
        JObj ([(''patient_account_id'', JStr (accountId p)), (''date'', JStr (apptDate p))]
              @ opt ''time'' (map_option JStr (or_undefined (apptTime p)))
              @ opt ''provider'' (map_option JStr (or_undefined (provider p))))
      else if selectedTask p = ''update_record'' then
        JObj [(''patient_account_id'', JStr (accountId p)),
              (''fields'',
               JObj (opt ''email'' (map_option JStr (or_undefined (trim (updateEmail p))))
                     @ opt ''cell_phone'' (map_option JStr (or_undefined (trim (updatePhone p))))
                     @ opt ''address'' (map_option JStr (or_undefined (trim (updateAddress p))))))]
      else JObj [])"

text \<open>
  \<^verbatim>\<open>load\<close> asks for the agent's status and its sessions; the page takes both results
  or the error (of the status request when both fail).
\<close>

definition agent_load ::
  "(request \<Rightarrow> 's fetched) \<Rightarrow> (request \<Rightarrow> 'l fetched) \<Rightarrow> ('s, 'l) agent_page
     \<Rightarrow> ('s, 'l) agent_page \<times> request list" where
  "agent_load fetch_s fetch_l p =
     (let rs = getAgentStatus; rl = getAgentSessions [''per_page'' \<mapsto> PNum 20]
      in case fetchApi fetch_s rs of
           Inl e \<Rightarrow> (p\<lparr>ag_error := message e\<rparr>, [rs, rl])
         | Inr s \<Rightarrow>
             (case fetchApi fetch_l rl of
                Inl e \<Rightarrow> (p\<lparr>ag_error := message e\<rparr>, [rs, rl])
              | Inr l \<Rightarrow> (p\<lparr>ag_status := Some s, ag_sessions := Some l\<rparr>, [rs, rl])))"

text \<open>
  \<^verbatim>\<open>handleSubmit\<close> of the agent page, with the requests it issued: the task is
  submitted, and after a success the page loads again.
\<close>

definition agent_handleSubmit ::
  "(request \<Rightarrow> 'a fetched) \<Rightarrow> (request \<Rightarrow> 's fetched) \<Rightarrow> (request \<Rightarrow> 'l fetched)
     \<Rightarrow> ('s, 'l) agent_page \<Rightarrow> ('s, 'l) agent_page \<times> request list" where
  "agent_handleSubmit fetch_t fetch_s fetch_l p =
     (let params = buildParams p;
          autoConfirm = (selectedTask p = ''sync_patients'');
          req = submitAgentTask (selectedTask p) params autoConfirm
      in case fetchApi fetch_t req of
           Inr session \<Rightarrow>
             (case agent_load fetch_s fetch_l (p\<lparr>ag_error := []\<rparr>) of
                (p', reqs) \<Rightarrow> (p'\<lparr>ag_submitting := False\<rparr>, req # reqs))
         | Inl e \<Rightarrow> (p\<lparr>ag_error := message e, ag_submitting := False\<rparr>, [req]))"

section \<open>The new-campaign page\<close>

datatype channel = Sms | Email

fun channel_str :: "channel \<Rightarrow> string" where
  "channel_str Sms = ''sms''"
| "channel_str Email = ''email''"

record new_campaign_page =
  nc_name :: string
  nc_channel :: channel
  nc_tierFilter :: string
  nc_scoreMin :: int
  nc_messageTemplate :: string
  nc_subject :: string
  nc_submitting :: bool
  nc_error :: string
  nc_pushed :: "string option"

text \<open>
  \<^verbatim>\<open>handleSubmit\<close> of the form: the three checks return early; otherwise the campaign
  is created and the router is pushed to its detail page (\<open>nc_pushed\<close>).
\<close>

definition handleSubmit ::
  "(request \<Rightarrow> Campaign fetched) \<Rightarrow> new_campaign_page \<Rightarrow> new_campaign_page \<times> request list" where
  "handleSubmit fetch p =
     (if trim (nc_name p) = [] then (p\<lparr>nc_error := ''Campaign name is required''\<rparr>, [])
      else if trim (nc_messageTemplate p) = []
      then (p\<lparr>nc_error := ''Message template is required''\<rparr>, [])
      else if nc_channel p = Email \<and> trim (nc_subject p) = []
      then (p\<lparr>nc_error := ''Email subject is required''\<rparr>, [])
      else
        let req = createCampaign
              ([(''name'', JStr (trim (nc_name p))),
                (''channel'', JStr (channel_str (nc_channel p)))]
               @ opt ''tier_filter'' (map_option JStr (or_undefined (nc_tierFilter p)))
               @ [(''score_min'', JNum (nc_scoreMin p)),
                  (''message_template'', JStr (nc_messageTemplate p))]
               @ opt ''subject''
                   (if nc_channel p = Email then Some (JStr (nc_subject p)) else None))
        in case fetchApi fetch req of
             Inr campaign \<Rightarrow>
               (p\<lparr>nc_submitting := False, nc_error := [],
                  nc_pushed := Some (''/campaigns/'' @ show_int (c_id campaign))\<rparr>, [req])
           | Inl e \<Rightarrow> (p\<lparr>nc_submitting := False, nc_error := message e\<rparr>, [req]))"

section \<open>The queue page\<close>

definition STATUSES :: "string list" where
  "STATUSES = [''pending'', ''contacted'', ''responded'', ''booked'', ''dead'']"

record 'd queue_page =
  q_data :: "'d option"
  q_error :: string

text \<open>
  The filters of a list page are read from the page's own URL: \<^verbatim>\<open>params.forEach\<close>
  assigns each entry in turn, so the last value of a key stays; assigning a string to
  \<^verbatim>\<open>__proto__\<close> stores no property, so an entry of that name is dropped. A missing or
  empty \<^verbatim>\<open>page\<close> becomes \<^verbatim>\<open>"1"\<close>.
\<close>

definition url_filters :: "(string \<times> string) list \<Rightarrow> (string \<rightharpoonup> param)" where
  "url_filters params =
     (let filters = map_of (rev (filter (\<lambda>(k, v). k \<noteq> ''__proto__'') params));
          filters' = (if filters ''page'' = None \<or> filters ''page'' = Some []
                      then filters(''page'' \<mapsto> ''1'') else filters)
      in (\<lambda>k. map_option PStr (filters' k)))"

definition queue_load ::
  "(request \<Rightarrow> 'd fetched) \<Rightarrow> (string \<times> string) list \<Rightarrow> 'd queue_page
     \<Rightarrow> 'd queue_page \<times> request list" where
  "queue_load fetch params p =
     (let req = getQueue (url_filters params)
      in case fetchApi fetch req of
           Inr d \<Rightarrow> (p\<lparr>q_data := Some d\<rparr>, [req])
         | Inl e \<Rightarrow> (p\<lparr>q_error := message e\<rparr>, [req]))"

text \<open>
  \<^verbatim>\<open>handleStatusChange\<close>: the row's select offers every element of \<open>STATUSES\<close>; the
  chosen one is sent as it is, and the list is loaded again only after the update
  succeeded.
\<close>

definition handleStatusChange ::
  "(request \<Rightarrow> 'i fetched) \<Rightarrow> (request \<Rightarrow> 'd fetched) \<Rightarrow> (string \<times> string) list
     \<Rightarrow> 'd queue_page \<Rightarrow> number \<Rightarrow> string \<Rightarrow> 'd queue_page \<times> request list" where
  "handleStatusChange fetch_item fetch_list params p i newStatus =
     (let req = updateQueueStatus i newStatus
      in case fetchApi fetch_item req of
           Inr item \<Rightarrow>
             (case queue_load fetch_list params p of (p', reqs) \<Rightarrow> (p', req # reqs))
         | Inl e \<Rightarrow> (p\<lparr>q_error := message e\<rparr>, [req]))"

section \<open>The campaign detail page\<close>

record 'm campaign_page =
  cp_campaign :: "Campaign option"
  cp_messages :: "'m option"
  cp_error :: string
  cp_sending :: bool
  cp_msgPage :: int
  cp_msgStatusFilter :: string

definition msgParams :: "'m campaign_page \<Rightarrow> (string \<rightharpoonup> param)" where
  "msgParams p =
     (let ps = [''page'' \<mapsto> PNum (cp_msgPage p), ''per_page'' \<mapsto> PNum 25]
      in if cp_msgStatusFilter p \<noteq> [] then ps(''status'' \<mapsto> PStr (cp_msgStatusFilter p)) else ps)"

text \<open>
  \<^verbatim>\<open>load\<close>: \<open>route\<close> is \<^verbatim>\<open>Number(id)\<close> of the route's \<^verbatim>\<open>id\<close>, \<open>None\<close> when the
  route has none. Both requests are issued; the page takes both results or the error
  (of the campaign request when both fail).
\<close>

definition campaign_load ::
  "(request \<Rightarrow> Campaign fetched) \<Rightarrow> (request \<Rightarrow> 'm fetched) \<Rightarrow> number option
     \<Rightarrow> 'm campaign_page \<Rightarrow> 'm campaign_page \<times> request list" where
  "campaign_load fetch_c fetch_m route p =
     (case route of
        None \<Rightarrow> (p, [])
      | Some cid \<Rightarrow>
          let rc = getCampaign cid; rm = getCampaignMessages cid (msgParams p)
          in case fetchApi fetch_c rc of
               Inl e \<Rightarrow> (p\<lparr>cp_error := message e\<rparr>, [rc, rm])
             | Inr c \<Rightarrow>
                 (case fetchApi fetch_m rm of
                    Inl e \<Rightarrow> (p\<lparr>cp_error := message e\<rparr>, [rc, rm])
                  | Inr m \<Rightarrow> (p\<lparr>cp_campaign := Some c, cp_messages := Some m\<rparr>, [rc, rm])))"

text \<open>The page while \<^verbatim>\<open>handleSend\<close> awaits the reply, and after it.\<close>

definition handleSend_awaiting :: "'m campaign_page \<Rightarrow> 'm campaign_page" where
  "handleSend_awaiting p = p\<lparr>cp_sending := True, cp_error := []\<rparr>"

definition handleSend ::
  "(request \<Rightarrow> Campaign fetched) \<Rightarrow> (request \<Rightarrow> Campaign fetched) \<Rightarrow> (request \<Rightarrow> 'm fetched)
     \<Rightarrow> number option \<Rightarrow> 'm campaign_page \<Rightarrow> 'm campaign_page \<times> request list" where
  "handleSend fetch_s fetch_c fetch_m route p =
     (case cp_campaign p of
        None \<Rightarrow> (p, [])
      | Some campaign \<Rightarrow>
          let req = sendCampaign (Whole (c_id campaign))
          in case fetchApi fetch_s req of
               Inr updated \<Rightarrow>
                 (case campaign_load fetch_c fetch_m route
                         ((handleSend_awaiting p)\<lparr>cp_campaign := Some updated\<rparr>) of
                    (p', reqs) \<Rightarrow> (p'\<lparr>cp_sending := False\<rparr>, req # reqs))
             | Inl e \<Rightarrow>
                 ((handleSend_awaiting p)\<lparr>cp_error := message e, cp_sending := False\<rparr>, [req]))"

text \<open>
  The header's button: rendered only for a draft; \<^verbatim>\<open>disabled\<close> while a send is
  awaited. \<open>None\<close> is no button.
\<close>

record send_button =
  sb_label :: string
  sb_disabled :: bool

definition sendButton :: "'m campaign_page \<Rightarrow> send_button option" where
  "sendButton p =
     (case cp_campaign p of
        None \<Rightarrow> None
      | Some campaign \<Rightarrow>
          if c_status campaign = ''draft''
          then Some \<lparr>sb_label = (if cp_sending p then ''Sending...'' else ''Send Campaign''),
                     sb_disabled = cp_sending p\<rparr>
          else None)"

subsection \<open>The rates of the stats row\<close>

text \<open>
  A JavaScript number is an IEEE 754 binary64 value, and \<^verbatim>\<open>-\<close>, \<^verbatim>\<open>/\<close> and \<^verbatim>\<open>*\<close> give the
  double nearest to the exact result, ties to the even significand. \<open>binary64 x\<close> is
  that double for a rational \<open>x\<close> in the normal range: with \<open>e\<close> such that
  \<open>2 ^ 52 \<le> \<bar>x\<bar> / 2 ^ e < 2 ^ 53\<close>, the quotient is rounded to an integer. \<open>ilog2 x\<close>
  is the integer part of the binary logarithm of a positive \<open>x\<close>. The counters of a
  campaign are integers below \<open>2 ^ 53\<close> in magnitude, which a number holds exactly;
  overflow and subnormal results do not arise from them. \<^verbatim>\<open>Math.round\<close> gives the
  nearest integer, the larger one on a tie.
\<close>

definition ilog2 :: "rat \<Rightarrow> int" where
  "ilog2 x =
     (case quotient_of x of
        (p, q) \<Rightarrow> let k = bitlen p - bitlen q in if 2 powi k \<le> x then k else k - 1)"






section \<open>The agent session page\<close>

text \<open>The read model of an agent session (\<^verbatim>\<open>interface AgentSession\<close>).\<close>

record AgentSession =
  as_id :: int
  as_session_type :: "string option"
  as_task_params :: "string option"
  as_started_at :: "string option"
  as_ended_at :: "string option"
  as_status :: "string option"
  as_records_affected :: int
  as_screenshot_count :: int
  as_iterations_used :: int
  as_error_log :: "string option"
  as_result_summary :: "string option"
  as_created_at :: "string option"

record 'sc session_page =
  sp_session :: "AgentSession option"
  sp_screenshots :: "'sc list"
  sp_error :: string
  sp_acting :: bool

text \<open>
  \<^verbatim>\<open>load\<close>: \<open>route\<close> is \<^verbatim>\<open>Number(id)\<close> of the route's \<^verbatim>\<open>id\<close>, \<open>None\<close> when the
  route has none.
\<close>

definition session_load ::
  "(request \<Rightarrow> AgentSession fetched) \<Rightarrow> (request \<Rightarrow> 'sc list fetched) \<Rightarrow> number option
     \<Rightarrow> 'sc session_page \<Rightarrow> 'sc session_page \<times> request list" where
  "session_load fetch_s fetch_sc route p =
     (case route of
        None \<Rightarrow> (p, [])
      | Some sid \<Rightarrow>
          let rs = getAgentSession sid; rc = getSessionScreenshots sid
          in case fetchApi fetch_s rs of
               Inl e \<Rightarrow> (p\<lparr>sp_error := message e\<rparr>, [rs, rc])
             | Inr s \<Rightarrow>
                 (case fetchApi fetch_sc rc of
                    Inl e \<Rightarrow> (p\<lparr>sp_error := message e\<rparr>, [rs, rc])
                  | Inr sc \<Rightarrow> (p\<lparr>sp_session := Some s, sp_screenshots := sc\<rparr>, [rs, rc])))"

definition handleConfirm ::
  "(request \<Rightarrow> AgentSession fetched) \<Rightarrow> (request \<Rightarrow> AgentSession fetched)
     \<Rightarrow> (request \<Rightarrow> 'sc list fetched) \<Rightarrow> number option
     \<Rightarrow> 'sc session_page \<Rightarrow> 'sc session_page \<times> request list" where
  "handleConfirm fetch_a fetch_s fetch_sc route p =
     (case sp_session p of
        None \<Rightarrow> (p, [])
      | Some session \<Rightarrow>
          let req = confirmAgentTask (Whole (as_id session))
          in case fetchApi fetch_a req of
               Inr confirmed \<Rightarrow>
                 (case session_load fetch_s fetch_sc route p of
                    (p', reqs) \<Rightarrow> (p'\<lparr>sp_acting := False\<rparr>, req # reqs))
             | Inl e \<Rightarrow> (p\<lparr>sp_error := message e, sp_acting := False\<rparr>, [req]))"

definition handleCancel ::
  "(request \<Rightarrow> AgentSession fetched) \<Rightarrow> (request \<Rightarrow> AgentSession fetched)
     \<Rightarrow> (request \<Rightarrow> 'sc list fetched) \<Rightarrow> number option
     \<Rightarrow> 'sc session_page \<Rightarrow> 'sc session_page \<times> request list" where
  "handleCancel fetch_a fetch_s fetch_sc route p =
     (case sp_session p of
        None \<Rightarrow> (p, [])
      | Some session \<Rightarrow>
          let req = cancelAgentTask (Whole (as_id session))
          in case fetchApi fetch_a req of
               Inr cancelled \<Rightarrow>
                 (case session_load fetch_s fetch_sc route p of
                    (p', reqs) \<Rightarrow> (p'\<lparr>sp_acting := False\<rparr>, req # reqs))
             | Inl e \<Rightarrow> (p\<lparr>sp_error := message e, sp_acting := False\<rparr>, [req]))"

text \<open>
  The header's buttons: Confirm and Run for a session that awaits confirmation, Cancel
  for one that runs or awaits confirmation.
\<close>

definition confirmButton :: "'sc session_page \<Rightarrow> bool" where
  "confirmButton p =
     (case sp_session p of
        None \<Rightarrow> False
      | Some session \<Rightarrow> as_status session = Some ''awaiting_confirmation'')"

definition cancelButton :: "'sc session_page \<Rightarrow> bool" where
  "cancelButton p =
     (case sp_session p of
        None \<Rightarrow> False
      | Some session \<Rightarrow>
          as_status session = Some ''running''
          \<or> as_status session = Some ''awaiting_confirmation'')"

section \<open>Every request of the dashboard\<close>

text \<open>
  The call sites of the API client, page by page: a request is in \<open>frontend_requests\<close>
  when some page, in some state and for some replies of the server, issues it through
  the client.
\<close>

definition body_has_field :: "string \<Rightarrow> request \<Rightarrow> bool" where
  "body_has_field k r = (case req_body r of None \<Rightarrow> False | Some j \<Rightarrow> has_field k j)"

definition body_field :: "string \<Rightarrow> request \<Rightarrow> json option" where
  "body_field k r = (case req_body r of Some (JObj kvs) \<Rightarrow> map_of kvs k | _ \<Rightarrow> None)"

text \<open>A request carries a field when its body holds it or its query has an entry of that name.\<close>

definition carries_field :: "string \<Rightarrow> request \<Rightarrow> bool" where
  "carries_field k r = (body_has_field k r \<or> req_query r k \<noteq> None)"

inductive_set frontend_requests :: "request set" where
  Dashboard_overview: "getAnalyticsOverview \<in> frontend_requests"
| Dashboard_coverage: "getContactCoverage \<in> frontend_requests"
| Dashboard_queue:
    "getQueue [''per_page'' \<mapsto> PNum 10, ''sort_by'' \<mapsto> PStr ''score'', ''sort_dir'' \<mapsto> PStr ''desc'']
       \<in> frontend_requests"
| PatientsPage_load: "getPatients (url_filters params) \<in> frontend_requests"
| PatientDetailPage_load: "getPatient i \<in> frontend_requests"
| QueuePage:
    "r \<in> set (snd (handleStatusChange (fetch_item :: request \<Rightarrow> json fetched)
                     (fetch_list :: request \<Rightarrow> json fetched) params p i newStatus))
     \<Longrightarrow> r \<in> frontend_requests"
| QueuePage_load:
    "r \<in> set (snd (queue_load (fetch_list :: request \<Rightarrow> json fetched) params p))
     \<Longrightarrow> r \<in> frontend_requests"
| CampaignsPage_load:
    "getCampaigns (\<lambda>k. if k = ''status'' then map_option PStr (or_undefined statusFilter)
                        else if k = ''channel'' then map_option PStr (or_undefined channelFilter)
                        else None) \<in> frontend_requests"
| CampaignsPage_status: "getCommsStatus \<in> frontend_requests"
| NewCampaignPage: "r \<in> set (snd (handleSubmit fetch np)) \<Longrightarrow> r \<in> frontend_requests"
| CampaignDetailPage_load:
    "r \<in> set (snd (campaign_load fetch_c (fetch_m :: request \<Rightarrow> json fetched) route cp))
     \<Longrightarrow> r \<in> frontend_requests"
| CampaignDetailPage_send:
    "r \<in> set (snd (handleSend fetch_s fetch_c (fetch_m :: request \<Rightarrow> json fetched) route cp))
     \<Longrightarrow> r \<in> frontend_requests"
| AgentPage_load:
    "r \<in> set (snd (agent_load (fetch_st :: request \<Rightarrow> json fetched)
                     (fetch_l :: request \<Rightarrow> json fetched) ap))
     \<Longrightarrow> r \<in> frontend_requests"
| AgentPage_submit:
    "r \<in> set (snd (agent_handleSubmit (fetch_a :: request \<Rightarrow> json fetched)
                     (fetch_st :: request \<Rightarrow> json fetched)
                     (fetch_l :: request \<Rightarrow> json fetched) ap))
     \<Longrightarrow> r \<in> frontend_requests"
| AgentSessionPage_load:
    "r \<in> set (snd (session_load fetch_s (fetch_sc :: request \<Rightarrow> json list fetched) route sp))
     \<Longrightarrow> r \<in> frontend_requests"
| AgentSessionPage_confirm:
    "r \<in> set (snd (handleConfirm fetch_a fetch_s (fetch_sc :: request \<Rightarrow> json list fetched)
                     route sp))
     \<Longrightarrow> r \<in> frontend_requests"
| AgentSessionPage_cancel:
    "r \<in> set (snd (handleCancel fetch_a fetch_s (fetch_sc :: request \<Rightarrow> json list fetched)
                     route sp))
     \<Longrightarrow> r \<in> frontend_requests"

text \<open>
  Every request an exported function of the client can build, for any arguments.
  (\<^verbatim>\<open>getScreenshotUrl\<close> builds the address of an image, which the browser loads with a
  GET; the function issues no request.)
\<close>

inductive_set api_requests :: "request set" where
  "getPatients params \<in> api_requests"
| "getPatient i \<in> api_requests"
| "getQueue params \<in> api_requests"
| "updateQueueStatus i status \<in> api_requests"
| "getAnalyticsOverview \<in> api_requests"
| "getContactCoverage \<in> api_requests"
| "getAgentStatus \<in> api_requests"
| "getAgentSessions params \<in> api_requests"
| "getAgentSession i \<in> api_requests"
| "getSessionScreenshots i \<in> api_requests"
| "submitAgentTask taskType ps confirmed \<in> api_requests"
| "confirmAgentTask i \<in> api_requests"
| "cancelAgentTask i \<in> api_requests"
| "getCommsStatus \<in> api_requests"
| "getCampaigns params \<in> api_requests"
| "getCampaign i \<in> api_requests"
| "createCampaign data \<in> api_requests"
| "sendCampaign i \<in> api_requests"
| "getCampaignMessages i params \<in> api_requests"

text \<open>
  A run against a server: the state of the server after it has served the requests in
  turn. The server is not among the sources; \<open>handle\<close> is any.
\<close>

definition serve :: "('s \<Rightarrow> request \<Rightarrow> 's) \<Rightarrow> 's \<Rightarrow> request list \<Rightarrow> 's" where
  "serve handle s rs = foldl handle s rs"

text \<open>A server that gives every request the same reply.\<close>

definition reply_with :: "'a fetched \<Rightarrow> request \<Rightarrow> 'a fetched" where
  "reply_with r req = r"

section \<open>The template preview\<close>








section \<open>The re-engagement core\<close>

text \<open>
  Modelled from the spec: the ScoringEngine, the QueueManager's \<^verbatim>\<open>setStatus\<close>, the
  EligibilityResolver and the DispatchCoordinator's \<^verbatim>\<open>submit\<close> run behind the HTTP
  API and are not among the sources. Every definition of this section follows sections
  3 and 4 of the specification; the records hold the fields of its data model that the
  four operations read or write.
\<close>

datatype tier = Active | Warm | Cool | Cold | Dormant

datatype queue_status = Pending | Contacted | Responded | Booked | Dead

datatype campaign_status = Draft | Sending | Sent | Failed

datatype message_status = MPending | MSent | MDelivered | MFailed | MBounced | MBlocked

datatype core_error = ValidationError | InvalidTransition | AlreadySending

record date =
  dt_year :: int
  dt_month :: int
  dt_day :: int

record patient =
  p_id :: nat
  p_account_id :: string
  p_cell_phone :: "string option"
  p_email :: "string option"
  p_alt_phone :: "string option"
  p_is_dnc :: bool
  p_last_appt :: "date option"
  p_total_visits :: nat
  p_has_insurance :: bool

record ScoreResult =
  score :: int
  tier :: tier

subsection \<open>ScoringEngine\<close>

text \<open>
  Modelled from the spec: the recency bands of section 4.1 (the ScoringEngine is
  missing), in whole calendar months between the last appointment and the as-of date.
  The tier of a band is the one the campaign form names for it (warm 6-12 months, cool
  1-2 years, cold 2-5 years, dormant 5+ years; active below).
\<close>

datatype band = Under_6mo | From_6_to_12mo | From_1_to_2y | From_2_to_3y | From_3_to_5y | Over_5y

definition months_between :: "date \<Rightarrow> date \<Rightarrow> int" where
  "months_between d as_of =
     (dt_year as_of - dt_year d) * 12 + (dt_month as_of - dt_month d)
       - (if dt_day as_of < dt_day d then 1 else 0)"

definition recency_band :: "date \<Rightarrow> date option \<Rightarrow> band" where
  "recency_band as_of last_appt =
     (case last_appt of
        None \<Rightarrow> Over_5y
      | Some d \<Rightarrow>
          let m = months_between d as_of
          in if m < 6 then Under_6mo else if m < 12 then From_6_to_12mo
             else if m < 24 then From_1_to_2y else if m < 36 then From_2_to_3y
             else if m < 60 then From_3_to_5y else Over_5y)"

fun band_points :: "band \<Rightarrow> int" where
  "band_points Under_6mo = 40"
| "band_points From_6_to_12mo = 35"
| "band_points From_1_to_2y = 28"
| "band_points From_2_to_3y = 18"
| "band_points From_3_to_5y = 10"
| "band_points Over_5y = 2"

fun band_tier :: "band \<Rightarrow> tier" where
  "band_tier Under_6mo = Active"
| "band_tier From_6_to_12mo = Warm"
| "band_tier From_1_to_2y = Cool"
| "band_tier From_2_to_3y = Cold"
| "band_tier From_3_to_5y = Cold"
| "band_tier Over_5y = Dormant"

definition visit_points :: "nat \<Rightarrow> int" where
  "visit_points n = (if 20 \<le> n then 10 else if 10 \<le> n then 7 else if 5 \<le> n then 4 else 0)"

definition raw_score :: "date \<Rightarrow> patient \<Rightarrow> int" where
  "raw_score as_of p =
     band_points (recency_band as_of (p_last_appt p))
     + (if p_email p \<noteq> None then 20 else 0)
     + (if p_cell_phone p \<noteq> None then 15 else 0)
     + (if p_alt_phone p \<noteq> None then 5 else 0)
     + visit_points (p_total_visits p)
     + (if p_has_insurance p then 8 else 0)
     - (if p_is_dnc p then 30 else 0)
     - (if p_email p = None \<and> p_cell_phone p = None \<and> p_alt_phone p = None then 15 else 0)"

text \<open>
  Modelled from the spec: the ScoringEngine of section 4.1 (missing): the additive
  points, the deductions for DNC and for no usable contact, the clamp to 0..100, and the
  tier of the recency band.
\<close>

definition ScoringEngine :: "date \<Rightarrow> patient \<Rightarrow> ScoreResult" where
  "ScoringEngine as_of p =
     \<lparr>score = max 0 (min 100 (raw_score as_of p)),
      tier = band_tier (recency_band as_of (p_last_appt p))\<rparr>"

subsection \<open>QueueManager\<close>

record queue_item =
  qi_id :: nat
  qi_patient_id :: nat
  qi_cell_phone :: "string option"
  qi_email :: "string option"
  qi_tier :: tier
  qi_score :: int
  qi_status :: queue_status
  qi_contact_attempts :: nat
  qi_last_contacted_at :: "nat option"

text \<open>
  Modelled from the spec: the legal transitions of section 4.2 (the QueueManager is
  missing): pending to contacted, contacted to responded, responded to booked, and any
  state to dead.
\<close>

fun legal_transition :: "queue_status \<Rightarrow> queue_status \<Rightarrow> bool" where
  "legal_transition from Dead = True"
| "legal_transition Pending Contacted = True"
| "legal_transition Contacted Responded = True"
| "legal_transition Responded Booked = True"
| "legal_transition from to = False"

text \<open>The names of the statuses on the wire, as the queue page lists them.\<close>

definition queue_status_str :: "queue_status \<Rightarrow> string" where
  "queue_status_str s =
     (case s of Pending \<Rightarrow> ''pending'' | Contacted \<Rightarrow> ''contacted''
      | Responded \<Rightarrow> ''responded'' | Booked \<Rightarrow> ''booked'' | Dead \<Rightarrow> ''dead'')"

text \<open>
  Modelled from the spec: \<^verbatim>\<open>setStatus\<close> of section 4.2 (the QueueManager is missing).
  The result is the item after the call and the error, if any.
\<close>

definition setStatus :: "queue_item \<Rightarrow> queue_status \<Rightarrow> queue_item \<times> core_error option" where
  "setStatus q new_status =
     (if legal_transition (qi_status q) new_status
      then (q\<lparr>qi_status := new_status\<rparr>, None)
      else (q, Some InvalidTransition))"

subsection \<open>EligibilityResolver\<close>

record campaign =
  cm_id :: nat
  cm_channel :: channel
  cm_tier_filter :: "tier option"
  cm_score_min :: int
  cm_message_template :: string
  cm_subject :: "string option"
  cm_status :: campaign_status
  cm_total_recipients :: nat
  cm_sent_count :: nat
  cm_failed_count :: nat
  cm_responded_count :: nat
  cm_booked_count :: nat

record outreach_message =
  om_campaign_id :: nat
  om_queue_item_id :: nat
  om_patient_id :: nat
  om_recipient :: string
  om_status :: message_status
  om_is_opt_out :: bool

record core =
  patients :: "nat \<rightharpoonup> patient"
  queue :: "queue_item list"
  messages :: "outreach_message list"

text \<open>
  Modelled from the spec: the conditions of section 4.3 (the EligibilityResolver is
  missing) on a queue item and its patient.
\<close>

definition contact_address :: "channel \<Rightarrow> patient \<Rightarrow> string option" where
  "contact_address ch p = (case ch of Sms \<Rightarrow> p_cell_phone p | Email \<Rightarrow> p_email p)"

definition opted_out :: "core \<Rightarrow> nat \<Rightarrow> bool" where
  "opted_out st pid = list_ex (\<lambda>m. om_patient_id m = pid \<and> om_is_opt_out m) (messages st)"

definition eligible :: "core \<Rightarrow> campaign \<Rightarrow> queue_item \<Rightarrow> bool" where
  "eligible st c q =
     ((qi_status q = Pending \<or> qi_status q = Contacted)
      \<and> (cm_tier_filter c = None \<or> cm_tier_filter c = Some (qi_tier q))
      \<and> cm_score_min c \<le> qi_score q
      \<and> (case patients st (qi_patient_id q) of
            None \<Rightarrow> False
          | Some p \<Rightarrow>
              \<not> p_is_dnc p \<and> \<not> opted_out st (qi_patient_id q)
              \<and> contact_address (cm_channel c) p \<noteq> None))"

text \<open>
  Modelled from the spec: the recipient set of section 4.3 (the EligibilityResolver is
  missing): the eligible queue items, by descending score, then ascending patient id.
\<close>

definition resolveRecipients :: "core \<Rightarrow> campaign \<Rightarrow> queue_item list" where
  "resolveRecipients st c =
     sort_key (\<lambda>q. (- qi_score q, qi_patient_id q)) (filter (eligible st c) (queue st))"

subsection \<open>DispatchCoordinator\<close>

text \<open>
  Modelled from the spec: the message that section 4.5 creates for a recipient (the
  DispatchCoordinator is missing): pending, addressed to the patient's contact for the
  campaign's channel.
\<close>

definition new_message :: "core \<Rightarrow> campaign \<Rightarrow> queue_item \<Rightarrow> outreach_message" where
  "new_message st c q =
     \<lparr>om_campaign_id = cm_id c, om_queue_item_id = qi_id q, om_patient_id = qi_patient_id q,
      om_recipient =
        (case patients st (qi_patient_id q) of
           None \<Rightarrow> []
         | Some p \<Rightarrow> (case contact_address (cm_channel c) p of None \<Rightarrow> [] | Some a \<Rightarrow> a)),
      om_status = MPending, om_is_opt_out = False\<rparr>"

text \<open>
  Modelled from the spec: \<^verbatim>\<open>submit\<close> of sections 4.5 and 5 (the DispatchCoordinator is
  missing). The compare-and-swap on the campaign's status is one atomic step of the
  store: it takes the store and the campaign as they are and gives them back with the
  error, if any. On winning, the recipients are resolved, \<^verbatim>\<open>total_recipients\<close> is set
  and one pending message per recipient is created.
\<close>

definition submit :: "core \<times> campaign \<Rightarrow> (core \<times> campaign) \<times> core_error option" where
  "submit s =
     (case s of (st, c) \<Rightarrow>
        if cm_status c = Draft
        then let recipients = resolveRecipients st c
             in ((st\<lparr>messages := messages st @ map (new_message st c) recipients\<rparr>,
                  c\<lparr>cm_status := Sending, cm_total_recipients := length recipients\<rparr>), None)
        else (s, Some AlreadySending))"

text \<open>
  Modelled from the spec: callers that race on one campaign (section 5) are steps of
  the store, taken one after the other in some order.
\<close>

fun submits :: "nat \<Rightarrow> core \<times> campaign \<Rightarrow> (core \<times> campaign) \<times> core_error option list" where
  "submits 0 s = (s, [])"
| "submits (Suc n) s =
     (case submit s of (s', r) \<Rightarrow> (case submits n s' of (s'', rs) \<Rightarrow> (s'', r # rs)))"

chapter \<open>Properties\<close>

section \<open>Requests and the do-not-contact flag\<close>

lemma has_field_opt_JStr [simp]:
  "list_ex (\<lambda>(k', v). k' = k \<or> has_field k v) (opt k0 (map_option JStr v0))
     = (v0 \<noteq> None \<and> k0 = k)"
  by (cases v0) (auto simp: opt_def)

lemma has_field_opt_JNum [simp]:
  "list_ex (\<lambda>(k', v). k' = k \<or> has_field k v) (opt k0 (map_option JNum v0))
     = (v0 \<noteq> None \<and> k0 = k)"
  by (cases v0) (auto simp: opt_def)

lemma buildParams_no_is_dnc: "\<not> has_field ''is_dnc'' (buildParams p)"
  by (simp add: buildParams_def list_ex_append)

lemma createCampaign_is_dnc:
  "body_has_field k (createCampaign data) = has_field k (JObj data)"
  by (simp add: createCampaign_def POST_def body_has_field_def)

text \<open>The object that the form hands to \<^verbatim>\<open>createCampaign\<close> has the six fields at most.\<close>

lemma handleSubmit_data:
  assumes "r \<in> set (snd (handleSubmit fetch np))"
  shows "\<exists>data. r = createCampaign data
           \<and> set (map fst data) \<subseteq> {''name'', ''channel'', ''tier_filter'', ''score_min'',
                                     ''message_template'', ''subject''}
           \<and> \<not> has_field ''is_dnc'' (JObj data)"
proof -
  let ?data = "[(''name'', JStr (trim (nc_name np))),
                (''channel'', JStr (channel_str (nc_channel np)))]
               @ opt ''tier_filter'' (map_option JStr (or_undefined (nc_tierFilter np)))
               @ [(''score_min'', JNum (nc_scoreMin np)),
                  (''message_template'', JStr (nc_messageTemplate np))]
               @ opt ''subject''
                   (if nc_channel np = Email then Some (JStr (nc_subject np)) else None)"
  from assms have "r = createCampaign ?data"
    by (auto simp: handleSubmit_def Let_def split: if_splits sum.splits)
  moreover have "set (map fst ?data) \<subseteq> {''name'', ''channel'', ''tier_filter'', ''score_min'',
                                     ''message_template'', ''subject''}"
    by (auto simp: opt_def split: option.splits)
  moreover have "\<not> has_field ''is_dnc'' (JObj ?data)"
    by (auto simp: opt_def list_ex_append split: option.splits)
  ultimately show ?thesis by blast
qed

lemma GET_no_body [simp]: "\<not> body_has_field k (GET path qs)"
  by (simp add: GET_def body_has_field_def)

lemma POST_None_no_body [simp]: "\<not> body_has_field k (POST path None)"
  by (simp add: POST_def body_has_field_def)

lemma updateQueueStatus_no_is_dnc: "\<not> body_has_field ''is_dnc'' (updateQueueStatus i s)"
  by (simp add: updateQueueStatus_def body_has_field_def)

lemma submitAgentTask_is_dnc:
  "body_has_field ''is_dnc'' (submitAgentTask t ps c) = has_field ''is_dnc'' ps"
  by (simp add: submitAgentTask_def POST_def body_has_field_def)

lemma agent_load_requests:
  "agent_load fs fl p = (p', rs) \<Longrightarrow> r \<in> set rs \<Longrightarrow>
   r = getAgentStatus \<or> (\<exists>params. r = getAgentSessions params)"
  by (auto simp: agent_load_def Let_def split: sum.splits)

lemma session_load_requests:
  "session_load fs fsc route p = (p', rs) \<Longrightarrow> r \<in> set rs \<Longrightarrow>
   (\<exists>i. r = getAgentSession i) \<or> (\<exists>i. r = getSessionScreenshots i)"
  by (auto simp: session_load_def Let_def split: sum.splits option.splits)

lemma queue_load_requests:
  "queue_load f ps p = (p', rs) \<Longrightarrow> r \<in> set rs \<Longrightarrow> \<exists>params. r = getQueue params"
  by (auto simp: queue_load_def Let_def split: sum.splits)

lemma campaign_load_requests:
  "campaign_load fc fm route p = (p', rs) \<Longrightarrow> r \<in> set rs \<Longrightarrow>
   (\<exists>i. r = getCampaign i) \<or> (\<exists>i params. r = getCampaignMessages i params)"
  by (auto simp: campaign_load_def Let_def split: sum.splits option.splits)

text \<open>Every request of a page is built by an exported function of the client.\<close>

lemma frontend_requests_api:
  assumes "r \<in> frontend_requests"
  shows "r \<in> api_requests"
  using assms
proof cases
  case (QueuePage fetch_item fetch_list params p i newStatus)
  then consider "r = updateQueueStatus i newStatus" | ps where "r = getQueue ps"
    by (auto simp: handleStatusChange_def Let_def split: sum.splits prod.splits
             dest: queue_load_requests)
  then show ?thesis by cases (auto intro: api_requests.intros)
next
  case (QueuePage_load fetch_list params p)
  then obtain ps where "r = getQueue ps"
    by (cases "queue_load fetch_list params p") (auto dest: queue_load_requests)
  then show ?thesis by (auto intro: api_requests.intros)
next
  case (NewCampaignPage fetch np)
  then obtain data where "r = createCampaign data"
    using handleSubmit_data by blast
  then show ?thesis by (auto intro: api_requests.intros)
next
  case (CampaignDetailPage_load fetch_c fetch_m route cp)
  then consider i where "r = getCampaign i" | i ps where "r = getCampaignMessages i ps"
    by (cases "campaign_load fetch_c fetch_m route cp") (auto dest: campaign_load_requests)
  then show ?thesis by cases (auto intro: api_requests.intros)
next
  case (CampaignDetailPage_send fetch_s fetch_c fetch_m route cp)
  then consider i where "r = sendCampaign i" | i where "r = getCampaign i"
    | i ps where "r = getCampaignMessages i ps"
    by (auto simp: handleSend_def Let_def split: option.splits sum.splits prod.splits
             dest: campaign_load_requests)
  then show ?thesis by cases (auto intro: api_requests.intros)
next
  case (AgentPage_load fetch_st fetch_l ap)
  then consider "r = getAgentStatus" | ps where "r = getAgentSessions ps"
    by (cases "agent_load fetch_st fetch_l ap") (auto dest: agent_load_requests)
  then show ?thesis by cases (auto intro: api_requests.intros)
next
  case (AgentPage_submit fetch_a fetch_st fetch_l ap)
  then consider t c where "r = submitAgentTask t (buildParams ap) c"
    | "r = getAgentStatus" | ps where "r = getAgentSessions ps"
    by (auto simp: agent_handleSubmit_def Let_def split: sum.splits prod.splits
             dest: agent_load_requests)
  then show ?thesis by cases (auto intro: api_requests.intros)
next
  case (AgentSessionPage_load fetch_s fetch_sc route sp)
  then consider i where "r = getAgentSession i" | i where "r = getSessionScreenshots i"
    by (cases "session_load fetch_s fetch_sc route sp") (auto dest: session_load_requests)
  then show ?thesis by cases (auto intro: api_requests.intros)
next
  case (AgentSessionPage_confirm fetch_a fetch_s fetch_sc route sp)
  then consider i where "r = confirmAgentTask i" | i where "r = getAgentSession i"
    | i where "r = getSessionScreenshots i"
    by (auto simp: handleConfirm_def Let_def split: option.splits sum.splits prod.splits
             dest: session_load_requests)
  then show ?thesis by cases (auto intro: api_requests.intros)
next
  case (AgentSessionPage_cancel fetch_a fetch_s fetch_sc route sp)
  then consider i where "r = cancelAgentTask i" | i where "r = getAgentSession i"
    | i where "r = getSessionScreenshots i"
    by (auto simp: handleCancel_def Let_def split: option.splits sum.splits prod.splits
             dest: session_load_requests)
  then show ?thesis by cases (auto intro: api_requests.intros)
qed (auto intro: api_requests.intros)

lemma frontend_no_is_dnc:
  assumes "r \<in> frontend_requests"
  shows "\<not> body_has_field ''is_dnc'' r"
  using assms
proof cases
  case (QueuePage fetch_item fetch_list params p i newStatus)
  then consider "r = updateQueueStatus i newStatus" | ps where "r = getQueue ps"
    by (auto simp: handleStatusChange_def Let_def split: sum.splits prod.splits
             dest: queue_load_requests)
  then show ?thesis
    by cases (simp_all add: updateQueueStatus_no_is_dnc getQueue_def)
next
  case (QueuePage_load fetch_list params p)
  then obtain ps where "r = getQueue ps"
    by (cases "queue_load fetch_list params p") (auto dest: queue_load_requests)
  then show ?thesis by (simp add: getQueue_def)
next
  case (NewCampaignPage fetch np)
  then obtain data where "r = createCampaign data" "\<not> has_field ''is_dnc'' (JObj data)"
    using handleSubmit_data by blast
  then show ?thesis by (simp add: createCampaign_is_dnc)
next
  case (CampaignDetailPage_load fetch_c fetch_m route cp)
  then consider i where "r = getCampaign i" | i ps where "r = getCampaignMessages i ps"
    by (cases "campaign_load fetch_c fetch_m route cp") (auto dest: campaign_load_requests)
  then show ?thesis
    by cases (simp_all add: getCampaign_def getCampaignMessages_def)
next
  case (CampaignDetailPage_send fetch_s fetch_c fetch_m route cp)
  then consider i where "r = sendCampaign i" | i where "r = getCampaign i"
    | i ps where "r = getCampaignMessages i ps"
    by (auto simp: handleSend_def Let_def split: option.splits sum.splits prod.splits
             dest: campaign_load_requests)
  then show ?thesis
    by cases (simp_all add: sendCampaign_def getCampaign_def getCampaignMessages_def)
next
  case (AgentPage_load fetch_st fetch_l ap)
  then consider "r = getAgentStatus" | ps where "r = getAgentSessions ps"
    by (cases "agent_load fetch_st fetch_l ap") (auto dest: agent_load_requests)
  then show ?thesis
    by cases (simp_all add: getAgentStatus_def getAgentSessions_def)
next
  case (AgentPage_submit fetch_a fetch_st fetch_l ap)
  then consider t c where "r = submitAgentTask t (buildParams ap) c"
    | "r = getAgentStatus" | ps where "r = getAgentSessions ps"
    by (auto simp: agent_handleSubmit_def Let_def split: sum.splits prod.splits
             dest: agent_load_requests)
  then show ?thesis
    by cases (simp_all add: submitAgentTask_is_dnc buildParams_no_is_dnc getAgentStatus_def
                getAgentSessions_def)
next
  case (AgentSessionPage_load fetch_s fetch_sc route sp)
  then consider i where "r = getAgentSession i" | i where "r = getSessionScreenshots i"
    by (cases "session_load fetch_s fetch_sc route sp") (auto dest: session_load_requests)
  then show ?thesis
    by cases (simp_all add: getAgentSession_def getSessionScreenshots_def)
next
  case (AgentSessionPage_confirm fetch_a fetch_s fetch_sc route sp)
  then consider i where "r = confirmAgentTask i" | i where "r = getAgentSession i"
    | i where "r = getSessionScreenshots i"
    by (auto simp: handleConfirm_def Let_def split: option.splits sum.splits prod.splits
             dest: session_load_requests)
  then show ?thesis
    by cases (simp_all add: confirmAgentTask_def getAgentSession_def getSessionScreenshots_def)
next
  case (AgentSessionPage_cancel fetch_a fetch_s fetch_sc route sp)
  then consider i where "r = cancelAgentTask i" | i where "r = getAgentSession i"
    | i where "r = getSessionScreenshots i"
    by (auto simp: handleCancel_def Let_def split: option.splits sum.splits prod.splits
             dest: session_load_requests)
  then show ?thesis
    by cases (simp_all add: cancelAgentTask_def getAgentSession_def getSessionScreenshots_def)
qed (simp_all add: getAnalyticsOverview_def getContactCoverage_def getQueue_def getPatients_def
       getPatient_def getCampaigns_def getCommsStatus_def)

lemma api_is_dnc_body:
  assumes "r \<in> api_requests" and "body_has_field ''is_dnc'' r"
  shows "(\<exists>taskType ps confirmed.
            r = submitAgentTask taskType ps confirmed \<and> has_field ''is_dnc'' ps)
         \<or> (\<exists>data. r = createCampaign data \<and> has_field ''is_dnc'' (JObj data))"
  using assms
  by cases
     (auto simp: getPatients_def getPatient_def getQueue_def updateQueueStatus_no_is_dnc
        getAnalyticsOverview_def getContactCoverage_def getAgentStatus_def getAgentSessions_def
        getAgentSession_def getSessionScreenshots_def confirmAgentTask_def cancelAgentTask_def
        getCommsStatus_def getCampaigns_def getCampaign_def createCampaign_is_dnc
        sendCampaign_def getCampaignMessages_def submitAgentTask_is_dnc)

lemma api_query_GET:
  assumes "r \<in> api_requests" and "req_query r k \<noteq> None"
  shows "req_method r = ''GET''"
  using assms
  by cases
     (auto simp: GET_def POST_def getPatients_def getPatient_def getQueue_def
        updateQueueStatus_def getAnalyticsOverview_def getContactCoverage_def getAgentStatus_def
        getAgentSessions_def getAgentSession_def getSessionScreenshots_def confirmAgentTask_def
        cancelAgentTask_def getCommsStatus_def getCampaigns_def getCampaign_def
        createCampaign_def sendCampaign_def getCampaignMessages_def submitAgentTask_def)

lemma frontend_is_dnc_GET:
  assumes "r \<in> frontend_requests" and "carries_field ''is_dnc'' r"
  shows "req_method r = ''GET''"
  using frontend_requests_api [OF assms(1)] frontend_no_is_dnc [OF assms(1)] assms(2)
    api_query_GET [of r "''is_dnc''"]
  by (auto simp: carries_field_def)

lemma serve_keeps_flag:
  assumes "\<And>s r p. dnc s p \<Longrightarrow> req_method r = ''GET'' \<or> \<not> carries_field ''is_dnc'' r
             \<Longrightarrow> dnc (handle s r) p"
    and "set rs \<subseteq> frontend_requests" and "dnc s p"
  shows "dnc (serve handle s rs) p"
  using assms(2,3) unfolding serve_def
proof (induction rs arbitrary: s)
  case Nil
  then show ?case by simp
next
  case (Cons r rs)
  from Cons.prems(1) have "req_method r = ''GET'' \<or> \<not> carries_field ''is_dnc'' r"
    using frontend_is_dnc_GET by auto
  with Cons.prems(2) have "dnc (handle s r) p" by (rule assms(1))
  with Cons show ?case by simp
qed

text \<open>
  Claim C1, as amended. No request that a page of the dashboard issues through the API
  client carries an \<^verbatim>\<open>is_dnc\<close> field in its body, whatever the page's state and the
  server's replies, and a request of a page that carries \<^verbatim>\<open>is_dnc\<close> anywhere is a GET
  with \<^verbatim>\<open>is_dnc\<close> among the filters of its query (the list pages forward the
  parameters of their own URL). Of the exported functions, \<^verbatim>\<open>updateQueueStatus\<close> sends
  only a status; \<^verbatim>\<open>submitAgentTask\<close> and \<^verbatim>\<open>createCampaign\<close> serialise the object that
  they are handed, so their body holds the field exactly when that object does, and the
  pages hand them objects without it (the form's six campaign fields at most, and
  \<^verbatim>\<open>buildParams\<close>); no other function sends the field in a body, and only a GET
  carries it in a query. So the frontend never sends a value for a patient's flag: for
  every server that keeps a set flag when it serves a GET and when it serves a request
  without an \<^verbatim>\<open>is_dnc\<close> field, a flag that is true stays true over every run of the
  frontend.
\<close>

theorem is_dnc_never_sent:
  "(r \<in> frontend_requests \<longrightarrow> \<not> body_has_field ''is_dnc'' r)
   \<and> (r \<in> frontend_requests \<longrightarrow> carries_field ''is_dnc'' r \<longrightarrow> req_method r = ''GET'')
   \<and> (r \<in> api_requests \<longrightarrow> body_has_field ''is_dnc'' r \<longrightarrow>
        (\<exists>taskType ps confirmed.
            r = submitAgentTask taskType ps confirmed \<and> has_field ''is_dnc'' ps)
        \<or> (\<exists>data. r = createCampaign data \<and> has_field ''is_dnc'' (JObj data)))
   \<and> (r \<in> api_requests \<longrightarrow> req_query r ''is_dnc'' \<noteq> None \<longrightarrow> req_method r = ''GET'')
   \<and> req_body (updateQueueStatus i status) = Some (JObj [(''status'', JStr status)])
   \<and> (\<forall>r' \<in> set (snd (handleSubmit fetch np)).
         \<exists>data. r' = createCampaign data
           \<and> set (map fst data) \<subseteq> {''name'', ''channel'', ''tier_filter'', ''score_min'',
                                     ''message_template'', ''subject''}
           \<and> \<not> has_field ''is_dnc'' (JObj data))
   \<and> \<not> has_field ''is_dnc'' (buildParams ap)
   \<and> ((\<forall>s r p. dnc s p \<longrightarrow> req_method r = ''GET'' \<or> \<not> carries_field ''is_dnc'' r
                 \<longrightarrow> dnc (handle s r) p)
        \<longrightarrow> set rs \<subseteq> frontend_requests \<longrightarrow> dnc s p \<longrightarrow> dnc (serve handle s rs) p)"
proof -
  have a: "r \<in> frontend_requests \<longrightarrow> \<not> body_has_field ''is_dnc'' r"
    using frontend_no_is_dnc by blast
  have b: "r \<in> frontend_requests \<longrightarrow> carries_field ''is_dnc'' r \<longrightarrow> req_method r = ''GET''"
    using frontend_is_dnc_GET by blast
  have c: "r \<in> api_requests \<longrightarrow> body_has_field ''is_dnc'' r \<longrightarrow>
        (\<exists>taskType ps confirmed.
            r = submitAgentTask taskType ps confirmed \<and> has_field ''is_dnc'' ps)
        \<or> (\<exists>data. r = createCampaign data \<and> has_field ''is_dnc'' (JObj data))"
    using api_is_dnc_body by blast
  have d: "r \<in> api_requests \<longrightarrow> req_query r ''is_dnc'' \<noteq> None \<longrightarrow> req_method r = ''GET''"
    using api_query_GET by blast
  have e: "req_body (updateQueueStatus i status) = Some (JObj [(''status'', JStr status)])"
    by (simp add: updateQueueStatus_def)
  have f: "\<forall>r' \<in> set (snd (handleSubmit fetch np)).
         \<exists>data. r' = createCampaign data
           \<and> set (map fst data) \<subseteq> {''name'', ''channel'', ''tier_filter'', ''score_min'',
                                     ''message_template'', ''subject''}
           \<and> \<not> has_field ''is_dnc'' (JObj data)"
    using handleSubmit_data by blast
  have g: "\<not> has_field ''is_dnc'' (buildParams ap)"
    by (rule buildParams_no_is_dnc)
  have h: "(\<forall>s r p. dnc s p \<longrightarrow> req_method r = ''GET'' \<or> \<not> carries_field ''is_dnc'' r
                 \<longrightarrow> dnc (handle s r) p)
        \<longrightarrow> set rs \<subseteq> frontend_requests \<longrightarrow> dnc s p \<longrightarrow> dnc (serve handle s rs) p"
    using serve_keeps_flag [of dnc handle rs s p] by blast
  show ?thesis
    by (intro conjI) (fact a b c d e f g h)+
qed

theorem is_dnc_never_sent_witness:
  "updateQueueStatus (Whole 5) ''dead'' \<in> frontend_requests
   \<and> \<not> body_has_field ''is_dnc'' (updateQueueStatus (Whole 5) ''dead'')
   \<and> getPatients (url_filters [(''is_dnc'', ''false'')]) \<in> frontend_requests
   \<and> carries_field ''is_dnc'' (getPatients (url_filters [(''is_dnc'', ''false'')]))
   \<and> req_method (getPatients (url_filters [(''is_dnc'', ''false'')])) = ''GET''
   \<and> (\<exists>taskType ps confirmed.
         submitAgentTask ''update_record'' (JObj [(''is_dnc'', JBool False)]) False
           = submitAgentTask taskType ps confirmed
         \<and> has_field ''is_dnc'' ps)
   \<and> serve (\<lambda>s r. if req_method r \<noteq> ''GET'' \<and> carries_field ''is_dnc'' r
                     then (\<lambda>p. False) else s)
        (\<lambda>p. True)
        [getPatients (url_filters [(''is_dnc'', ''false'')]),
         updateQueueStatus (Whole 5) ''dead''] (7 :: int)"
proof -
  let ?u = "updateQueueStatus (Whole 5) ''dead''"
  let ?g = "getPatients (url_filters [(''is_dnc'', ''false'')])"
  let ?t = "submitAgentTask ''update_record'' (JObj [(''is_dnc'', JBool False)]) False"
  let ?handle = "\<lambda>(s :: int \<Rightarrow> bool) r.
                   if req_method r \<noteq> ''GET'' \<and> carries_field ''is_dnc'' r
                   then (\<lambda>p. False) else s"
  let ?dnc = "\<lambda>(s :: int \<Rightarrow> bool) p. s p"
  have "?u \<in> set (snd (handleStatusChange
                         (reply_with (NoResponse ''Failed to fetch'' :: json fetched))
                         (reply_with (NoResponse ''Failed to fetch'' :: json fetched)) []
                         \<lparr>q_data = None, q_error = []\<rparr> (Whole 5) ''dead''))"
    by (simp add: handleStatusChange_def fetchApi_def reply_with_def)
  then have u: "?u \<in> frontend_requests"
    by (rule frontend_requests.QueuePage)
  have g: "?g \<in> frontend_requests"
    by (rule frontend_requests.PatientsPage_load)
  have cg: "carries_field ''is_dnc'' ?g"
    by (simp add: carries_field_def getPatients_def GET_def search_params_def url_filters_def)
  have t: "?t \<in> api_requests"
    by (rule api_requests.intros)
  have bt: "body_has_field ''is_dnc'' ?t"
    by (simp add: submitAgentTask_def POST_def body_has_field_def)
  have srv: "\<forall>s r p. ?dnc s p \<longrightarrow> req_method r = ''GET'' \<or> \<not> carries_field ''is_dnc'' r
               \<longrightarrow> ?dnc (?handle s r) p"
    by simp
  have run: "set [?g, ?u] \<subseteq> frontend_requests"
    using u g by simp
  have ne: "?t \<noteq> createCampaign data" for data
    by (simp add: submitAgentTask_def createCampaign_def POST_def)
  from is_dnc_never_sent [where r = ?u, THEN conjunct1] u
  have 1: "\<not> body_has_field ''is_dnc'' ?u"
    by (rule mp)
  from is_dnc_never_sent [where r = ?g, THEN conjunct2, THEN conjunct1] g cg
  have 2: "req_method ?g = ''GET''"
    by (rule mp [OF mp])
  from is_dnc_never_sent [where r = ?t, THEN conjunct2, THEN conjunct2, THEN conjunct1] t bt
  have "(\<exists>taskType ps confirmed. ?t = submitAgentTask taskType ps confirmed
             \<and> has_field ''is_dnc'' ps)
        \<or> (\<exists>data. ?t = createCampaign data \<and> has_field ''is_dnc'' (JObj data))"
    by (rule mp [OF mp])
  then have 3: "\<exists>taskType ps confirmed. ?t = submitAgentTask taskType ps confirmed
             \<and> has_field ''is_dnc'' ps"
    by (simp add: ne)
  from is_dnc_never_sent [where dnc = ?dnc and handle = ?handle and rs = "[?g, ?u]"
      and s = "\<lambda>p. True" and p = 7, THEN conjunct2, THEN conjunct2, THEN conjunct2,
      THEN conjunct2, THEN conjunct2, THEN conjunct2, THEN conjunct2] srv run
  have 4: "serve ?handle (\<lambda>p. True) [?g, ?u] 7"
    by simp
  from u 1 g cg 2 3 4 show ?thesis
    by (intro conjI)
qed

text \<open>
  The claim as stated fails on the patients page: opened at a URL with the parameter
  \<^verbatim>\<open>is_dnc=false\<close>, it calls \<^verbatim>\<open>getPatients\<close> with that filter, and the request that the
  function issues carries an \<^verbatim>\<open>is_dnc\<close> field, in its query.
\<close>

theorem getPatients_is_dnc_counterexample:
  "getPatients (url_filters [(''is_dnc'', ''false'')]) \<in> frontend_requests
   \<and> req_path (getPatients (url_filters [(''is_dnc'', ''false'')])) = ''/api/patients''
   \<and> req_query (getPatients (url_filters [(''is_dnc'', ''false'')])) ''is_dnc'' = Some ''false''
   \<and> carries_field ''is_dnc'' (getPatients (url_filters [(''is_dnc'', ''false'')]))"
proof (intro conjI)
  show "getPatients (url_filters [(''is_dnc'', ''false'')]) \<in> frontend_requests"
    by (rule frontend_requests.PatientsPage_load)
  show "req_path (getPatients (url_filters [(''is_dnc'', ''false'')])) = ''/api/patients''"
    by (simp add: getPatients_def GET_def)
  show "req_query (getPatients (url_filters [(''is_dnc'', ''false'')])) ''is_dnc''
          = Some ''false''"
    by (simp add: getPatients_def GET_def search_params_def url_filters_def)
  show "carries_field ''is_dnc'' (getPatients (url_filters [(''is_dnc'', ''false'')]))"
    by (simp add: carries_field_def getPatients_def GET_def search_params_def url_filters_def)
qed

section \<open>Eligibility\<close>

text \<open>
  Claim C2. A queue item is among the resolved recipients of a campaign exactly when it
  is in the queue, its status is pending or contacted, the campaign's tier filter is
  unset or is the item's tier, its score is at least \<^verbatim>\<open>score_min\<close>, and its patient is
  on record, is not DNC, has no message with \<^verbatim>\<open>is_opt_out\<close> set, and has an address for
  the campaign's channel (cell phone for sms, email for email). An item whose patient is
  DNC is never a recipient, whatever its score.
\<close>

theorem recipients_iff:
  "(q \<in> set (resolveRecipients st c) \<longleftrightarrow>
      q \<in> set (queue st)
      \<and> (qi_status q = Pending \<or> qi_status q = Contacted)
      \<and> (cm_tier_filter c = None \<or> cm_tier_filter c = Some (qi_tier q))
      \<and> cm_score_min c \<le> qi_score q
      \<and> (\<exists>p. patients st (qi_patient_id q) = Some p
             \<and> p_is_dnc p = False
             \<and> \<not> (\<exists>m \<in> set (messages st).
                     om_patient_id m = qi_patient_id q \<and> om_is_opt_out m = True)
             \<and> (case cm_channel c of Sms \<Rightarrow> p_cell_phone p | Email \<Rightarrow> p_email p) \<noteq> None))
   \<and> (\<forall>p. patients st (qi_patient_id q) = Some p \<and> p_is_dnc p
          \<longrightarrow> q \<notin> set (resolveRecipients st c))"
  by (auto simp: resolveRecipients_def eligible_def opted_out_def contact_address_def
        list_ex_iff split: option.splits)

theorem recipients_iff_witness:
  "\<lparr>qi_id = 1, qi_patient_id = 7, qi_cell_phone = Some ''5550100'', qi_email = None,
     qi_tier = Warm, qi_score = 62, qi_status = Pending, qi_contact_attempts = 0,
     qi_last_contacted_at = None\<rparr>
   \<in> set (resolveRecipients
     \<lparr>patients = [7 \<mapsto> \<lparr>p_id = 7, p_account_id = ''A7'', p_cell_phone = Some ''5550100'',
                       p_email = None, p_alt_phone = None, p_is_dnc = False, p_last_appt = None,
                       p_total_visits = 3, p_has_insurance = False\<rparr>,
                  8 \<mapsto> \<lparr>p_id = 8, p_account_id = ''A8'', p_cell_phone = Some ''5550101'',
                       p_email = None, p_alt_phone = None, p_is_dnc = True, p_last_appt = None,
                       p_total_visits = 3, p_has_insurance = False\<rparr>],
      queue = [\<lparr>qi_id = 1, qi_patient_id = 7, qi_cell_phone = Some ''5550100'', qi_email = None,
                qi_tier = Warm, qi_score = 62, qi_status = Pending, qi_contact_attempts = 0,
                qi_last_contacted_at = None\<rparr>,
               \<lparr>qi_id = 2, qi_patient_id = 8, qi_cell_phone = Some ''5550101'', qi_email = None,
                qi_tier = Warm, qi_score = 90, qi_status = Pending, qi_contact_attempts = 0,
                qi_last_contacted_at = None\<rparr>],
      messages = []\<rparr>
     \<lparr>cm_id = 1, cm_channel = Sms, cm_tier_filter = Some Warm, cm_score_min = 50,
      cm_message_template = ''Hi {called_name}'', cm_subject = None, cm_status = Draft,
      cm_total_recipients = 0, cm_sent_count = 0, cm_failed_count = 0,
      cm_responded_count = 0, cm_booked_count = 0\<rparr>)
   \<and> \<lparr>qi_id = 2, qi_patient_id = 8, qi_cell_phone = Some ''5550101'', qi_email = None,
     qi_tier = Warm, qi_score = 90, qi_status = Pending, qi_contact_attempts = 0,
     qi_last_contacted_at = None\<rparr>
   \<notin> set (resolveRecipients
     \<lparr>patients = [7 \<mapsto> \<lparr>p_id = 7, p_account_id = ''A7'', p_cell_phone = Some ''5550100'',
                       p_email = None, p_alt_phone = None, p_is_dnc = False, p_last_appt = None,
                       p_total_visits = 3, p_has_insurance = False\<rparr>,
                  8 \<mapsto> \<lparr>p_id = 8, p_account_id = ''A8'', p_cell_phone = Some ''5550101'',
                       p_email = None, p_alt_phone = None, p_is_dnc = True, p_last_appt = None,
                       p_total_visits = 3, p_has_insurance = False\<rparr>],
      queue = [\<lparr>qi_id = 1, qi_patient_id = 7, qi_cell_phone = Some ''5550100'', qi_email = None,
                qi_tier = Warm, qi_score = 62, qi_status = Pending, qi_contact_attempts = 0,
                qi_last_contacted_at = None\<rparr>,
               \<lparr>qi_id = 2, qi_patient_id = 8, qi_cell_phone = Some ''5550101'', qi_email = None,
                qi_tier = Warm, qi_score = 90, qi_status = Pending, qi_contact_attempts = 0,
                qi_last_contacted_at = None\<rparr>],
      messages = []\<rparr>
     \<lparr>cm_id = 1, cm_channel = Sms, cm_tier_filter = Some Warm, cm_score_min = 50,
      cm_message_template = ''Hi {called_name}'', cm_subject = None, cm_status = Draft,
      cm_total_recipients = 0, cm_sent_count = 0, cm_failed_count = 0,
      cm_responded_count = 0, cm_booked_count = 0\<rparr>)"
proof -
  let ?q1 = "\<lparr>qi_id = 1, qi_patient_id = 7, qi_cell_phone = Some ''5550100'', qi_email = None,
     qi_tier = Warm, qi_score = 62, qi_status = Pending, qi_contact_attempts = 0,
     qi_last_contacted_at = None\<rparr>"
  let ?q2 = "\<lparr>qi_id = 2, qi_patient_id = 8, qi_cell_phone = Some ''5550101'', qi_email = None,
     qi_tier = Warm, qi_score = 90, qi_status = Pending, qi_contact_attempts = 0,
     qi_last_contacted_at = None\<rparr>"
  let ?st = "\<lparr>patients = [7 \<mapsto> \<lparr>p_id = 7, p_account_id = ''A7'', p_cell_phone = Some ''5550100'',
                       p_email = None, p_alt_phone = None, p_is_dnc = False, p_last_appt = None,
                       p_total_visits = 3, p_has_insurance = False\<rparr>,
                  8 \<mapsto> \<lparr>p_id = 8, p_account_id = ''A8'', p_cell_phone = Some ''5550101'',
                       p_email = None, p_alt_phone = None, p_is_dnc = True, p_last_appt = None,
                       p_total_visits = 3, p_has_insurance = False\<rparr>],
      queue = [?q1, ?q2], messages = []\<rparr>"
  let ?c = "\<lparr>cm_id = 1, cm_channel = Sms, cm_tier_filter = Some Warm, cm_score_min = 50,
      cm_message_template = ''Hi {called_name}'', cm_subject = None, cm_status = Draft,
      cm_total_recipients = 0, cm_sent_count = 0, cm_failed_count = 0,
      cm_responded_count = 0, cm_booked_count = 0\<rparr>"
  have "?q1 \<in> set (resolveRecipients ?st ?c)"
    using recipients_iff [of ?q1 ?st ?c] by simp
  moreover have "?q2 \<notin> set (resolveRecipients ?st ?c)"
    using recipients_iff [of ?q2 ?st ?c] by simp
  ultimately show ?thesis by blast
qed

section \<open>Scoring\<close>

text \<open>
  Claim C3. A patient whose last appointment is 8 months before the as-of date, with an
  email but neither cell nor alternate phone, 12 visits, no insurance and not DNC, gets
  score 62 (35 + 20 + 7) and tier warm.
\<close>

theorem scoring_scenario:
  assumes "p_last_appt p = Some d" and "months_between d as_of = 8"
    and "p_email p \<noteq> None" and "p_cell_phone p = None" and "p_alt_phone p = None"
    and "p_total_visits p = 12" and "\<not> p_has_insurance p" and "\<not> p_is_dnc p"
  shows "ScoringEngine as_of p = \<lparr>score = 62, tier = Warm\<rparr>"
  using assms
  by (simp add: ScoringEngine_def raw_score_def recency_band_def visit_points_def)

theorem scoring_scenario_witness:
  "ScoringEngine \<lparr>dt_year = 2026, dt_month = 11, dt_day = 3\<rparr>
     \<lparr>p_id = 1, p_account_id = ''A100'', p_cell_phone = None, p_email = Some ''pat@example.org'',
      p_alt_phone = None, p_is_dnc = False,
      p_last_appt = Some \<lparr>dt_year = 2026, dt_month = 2, dt_day = 20\<rparr>,
      p_total_visits = 12, p_has_insurance = False\<rparr>
   = \<lparr>score = 62, tier = Warm\<rparr>"
  using scoring_scenario [of "\<lparr>p_id = 1, p_account_id = ''A100'', p_cell_phone = None,
      p_email = Some ''pat@example.org'', p_alt_phone = None, p_is_dnc = False,
      p_last_appt = Some \<lparr>dt_year = 2026, dt_month = 2, dt_day = 20\<rparr>,
      p_total_visits = 12, p_has_insurance = False\<rparr>"
      "\<lparr>dt_year = 2026, dt_month = 2, dt_day = 20\<rparr>"
      "\<lparr>dt_year = 2026, dt_month = 11, dt_day = 3\<rparr>"]
  by (simp add: months_between_def)

section \<open>Submitting a campaign\<close>

lemma submit_not_draft: "cm_status (snd s) \<noteq> Draft \<Longrightarrow> submit s = (s, Some AlreadySending)"
  by (cases s) (simp add: submit_def)

lemma submit_leaves_draft: "cm_status (snd (fst (submit s))) \<noteq> Draft"
  by (cases s) (simp add: submit_def Let_def)

lemma submits_not_draft:
  "cm_status (snd s) \<noteq> Draft \<Longrightarrow> submits n s = (s, replicate n (Some AlreadySending))"
  by (induction n) (simp_all add: submit_not_draft)

lemma submits_Suc:
  "submits (Suc n) s = (fst (submit s), snd (submit s) # replicate n (Some AlreadySending))"
proof (cases "submit s")
  case (Pair s' r)
  then have "cm_status (snd s') \<noteq> Draft"
    using submit_leaves_draft [of s] by simp
  then show ?thesis
    using Pair by (simp add: submits_not_draft)
qed

lemma submits_winners: "length (filter (\<lambda>r. r = None) (snd (submits n s))) \<le> 1"
proof (cases n)
  case 0
  then show ?thesis by simp
next
  case (Suc m)
  then show ?thesis by (simp add: submits_Suc del: submits.simps)
qed

text \<open>
  Claim C4. \<^verbatim>\<open>submit\<close> succeeds exactly on a draft; otherwise it fails with
  \<^verbatim>\<open>AlreadySending\<close> and changes nothing. After any submit a further submit fails, so of
  any number of callers racing on a draft the first alone wins, the others get
  \<^verbatim>\<open>AlreadySending\<close>, and the messages are those the winner created. The detail page
  renders the Send Campaign button only for a campaign whose status is \<^verbatim>\<open>draft\<close>, and
  disabled while a send is awaited.
\<close>

theorem submit_once:
  "(snd (submit s) = None \<longleftrightarrow> cm_status (snd s) = Draft)
   \<and> (snd (submit s) \<noteq> None \<longrightarrow> submit s = (s, Some AlreadySending))
   \<and> submit (fst (submit s)) = (fst (submit s), Some AlreadySending)
   \<and> (cm_status (snd s) = Draft \<longrightarrow>
        submits (Suc n) s = (fst (submit s), None # replicate n (Some AlreadySending)))
   \<and> length (filter (\<lambda>r. r = None) (snd (submits k s))) \<le> 1
   \<and> (sendButton p \<noteq> None \<longleftrightarrow> (\<exists>c. cp_campaign p = Some c \<and> c_status c = ''draft''))
   \<and> (\<forall>b. sendButton (handleSend_awaiting p) = Some b \<longrightarrow> sb_disabled b)"
proof -
  have 1: "snd (submit s) = None \<longleftrightarrow> cm_status (snd s) = Draft"
    by (cases s) (simp add: submit_def Let_def)
  have 2: "snd (submit s) \<noteq> None \<longrightarrow> submit s = (s, Some AlreadySending)"
    using 1 submit_not_draft [of s] by auto
  have 3: "submit (fst (submit s)) = (fst (submit s), Some AlreadySending)"
    by (rule submit_not_draft) (rule submit_leaves_draft)
  have 4: "cm_status (snd s) = Draft \<longrightarrow>
        submits (Suc n) s = (fst (submit s), None # replicate n (Some AlreadySending))"
    using 1 by (simp only: submits_Suc) simp
  have 5: "sendButton p \<noteq> None \<longleftrightarrow> (\<exists>c. cp_campaign p = Some c \<and> c_status c = ''draft'')"
    by (simp add: sendButton_def split: option.splits)
  have 6: "\<forall>b. sendButton (handleSend_awaiting p) = Some b \<longrightarrow> sb_disabled b"
    by (auto simp: sendButton_def handleSend_awaiting_def split: option.splits if_splits)
  from 1 2 3 4 5 6 submits_winners [of k s] show ?thesis by blast
qed

theorem submit_once_witness:
  "snd (submit (\<lparr>patients = Map.empty, queue = [], messages = []\<rparr>,
        \<lparr>cm_id = 1, cm_channel = Sms, cm_tier_filter = None, cm_score_min = 0,
         cm_message_template = ''Hi {called_name}'', cm_subject = None, cm_status = Draft,
         cm_total_recipients = 0, cm_sent_count = 0, cm_failed_count = 0,
         cm_responded_count = 0, cm_booked_count = 0\<rparr>)) = None
   \<and> snd (submits (Suc 2) (\<lparr>patients = Map.empty, queue = [], messages = []\<rparr>,
        \<lparr>cm_id = 1, cm_channel = Sms, cm_tier_filter = None, cm_score_min = 0,
         cm_message_template = ''Hi {called_name}'', cm_subject = None, cm_status = Draft,
         cm_total_recipients = 0, cm_sent_count = 0, cm_failed_count = 0,
         cm_responded_count = 0, cm_booked_count = 0\<rparr>))
       = [None, Some AlreadySending, Some AlreadySending]"
proof -
  let ?s = "(\<lparr>patients = Map.empty, queue = [], messages = []\<rparr>,
        \<lparr>cm_id = 1, cm_channel = Sms, cm_tier_filter = None, cm_score_min = 0,
         cm_message_template = ''Hi {called_name}'', cm_subject = None, cm_status = Draft,
         cm_total_recipients = 0, cm_sent_count = 0, cm_failed_count = 0,
         cm_responded_count = 0, cm_booked_count = 0\<rparr>)"
  let ?p = "\<lparr>cp_campaign = None, cp_messages = (None :: json option), cp_error = [],
        cp_sending = False, cp_msgPage = 1, cp_msgStatusFilter = []\<rparr>"
  have d: "cm_status (snd ?s) = Draft" by simp
  from submit_once [of ?s 2 3 ?p]
  have "snd (submit ?s) = None \<longleftrightarrow> cm_status (snd ?s) = Draft"
    and "cm_status (snd ?s) = Draft \<longrightarrow>
        submits (Suc 2) ?s = (fst (submit ?s), None # replicate 2 (Some AlreadySending))"
    by blast+
  with d have "snd (submit ?s) = None"
    and "submits (Suc 2) ?s = (fst (submit ?s), None # replicate 2 (Some AlreadySending))"
    by blast+
  then show ?thesis by (simp add: numeral_2_eq_2)
qed

section \<open>Queue status changes\<close>

text \<open>
  Claim C6, as amended. \<^verbatim>\<open>setStatus\<close> succeeds exactly for pending to contacted,
  contacted to responded, responded to booked, and anything to dead; then the item has
  the new status. Otherwise it fails with \<^verbatim>\<open>InvalidTransition\<close> and the item is as it
  was. The queue page's select lists all five statuses for every row and sends the
  chosen one as it is, so it relies on this rejection. When the update fails the page
  shows the error's message, keeps its data and issues no further request: it does not
  load the list again. It loads the list again only after an update that succeeded.
\<close>

theorem setStatus_transitions:
  "(snd (setStatus q new_status) = None \<longleftrightarrow>
      (qi_status q = Pending \<and> new_status = Contacted)
      \<or> (qi_status q = Contacted \<and> new_status = Responded)
      \<or> (qi_status q = Responded \<and> new_status = Booked)
      \<or> new_status = Dead)
   \<and> (snd (setStatus q new_status) = None \<longrightarrow>
        fst (setStatus q new_status) = q\<lparr>qi_status := new_status\<rparr>)
   \<and> (snd (setStatus q new_status) \<noteq> None \<longrightarrow>
        setStatus q new_status = (q, Some InvalidTransition))
   \<and> STATUSES = map queue_status_str [Pending, Contacted, Responded, Booked, Dead]
   \<and> hd (snd (handleStatusChange fetch_item fetch_list params p i newStatus))
        = updateQueueStatus i newStatus
   \<and> (\<forall>e. fetchApi fetch_item (updateQueueStatus i newStatus) = Inl e \<longrightarrow>
          handleStatusChange fetch_item fetch_list params p i newStatus
            = (p\<lparr>q_error := message e\<rparr>, [updateQueueStatus i newStatus]))
   \<and> (\<forall>item. fetchApi fetch_item (updateQueueStatus i newStatus) = Inr item \<longrightarrow>
          handleStatusChange fetch_item fetch_list params p i newStatus
            = (fst (queue_load fetch_list params p),
               updateQueueStatus i newStatus # snd (queue_load fetch_list params p)))"
proof -
  have a: "snd (setStatus q new_status) = None \<longleftrightarrow>
      (qi_status q = Pending \<and> new_status = Contacted)
      \<or> (qi_status q = Contacted \<and> new_status = Responded)
      \<or> (qi_status q = Responded \<and> new_status = Booked)
      \<or> new_status = Dead"
    by (cases "qi_status q"; cases new_status) (simp_all add: setStatus_def)
  have b: "snd (setStatus q new_status) = None \<longrightarrow>
        fst (setStatus q new_status) = q\<lparr>qi_status := new_status\<rparr>"
    by (simp add: setStatus_def)
  have c: "snd (setStatus q new_status) \<noteq> None \<longrightarrow>
        setStatus q new_status = (q, Some InvalidTransition)"
    by (simp add: setStatus_def)
  have d: "STATUSES = map queue_status_str [Pending, Contacted, Responded, Booked, Dead]"
    by (simp add: STATUSES_def queue_status_str_def)
  have e: "hd (snd (handleStatusChange fetch_item fetch_list params p i newStatus))
        = updateQueueStatus i newStatus"
    by (simp add: handleStatusChange_def Let_def split: sum.splits prod.splits)
  have f: "\<forall>e. fetchApi fetch_item (updateQueueStatus i newStatus) = Inl e \<longrightarrow>
          handleStatusChange fetch_item fetch_list params p i newStatus
            = (p\<lparr>q_error := message e\<rparr>, [updateQueueStatus i newStatus])"
    by (simp add: handleStatusChange_def Let_def)
  have g: "\<forall>item. fetchApi fetch_item (updateQueueStatus i newStatus) = Inr item \<longrightarrow>
          handleStatusChange fetch_item fetch_list params p i newStatus
            = (fst (queue_load fetch_list params p),
               updateQueueStatus i newStatus # snd (queue_load fetch_list params p))"
    by (simp add: handleStatusChange_def Let_def split: prod.splits)
  show ?thesis
    by (intro conjI) (fact a b c d e f g)+
qed

theorem setStatus_transitions_witness:
  "setStatus \<lparr>qi_id = 1, qi_patient_id = 7, qi_cell_phone = None, qi_email = None,
       qi_tier = Warm, qi_score = 62, qi_status = Pending, qi_contact_attempts = 0,
       qi_last_contacted_at = None\<rparr> Booked
   = (\<lparr>qi_id = 1, qi_patient_id = 7, qi_cell_phone = None, qi_email = None,
       qi_tier = Warm, qi_score = 62, qi_status = Pending, qi_contact_attempts = 0,
       qi_last_contacted_at = None\<rparr>, Some InvalidTransition)
   \<and> fst (setStatus \<lparr>qi_id = 1, qi_patient_id = 7, qi_cell_phone = None, qi_email = None,
       qi_tier = Warm, qi_score = 62, qi_status = Pending, qi_contact_attempts = 0,
       qi_last_contacted_at = None\<rparr> Contacted)
   = \<lparr>qi_id = 1, qi_patient_id = 7, qi_cell_phone = None, qi_email = None,
       qi_tier = Warm, qi_score = 62, qi_status = Contacted, qi_contact_attempts = 0,
       qi_last_contacted_at = None\<rparr>
   \<and> handleStatusChange
       (reply_with (Response \<lparr>res_ok = False, res_status = 400,
          res_text = ''invalid transition'', res_json = (Inl ''Unexpected token'' :: string + json)\<rparr>))
       (reply_with (NoResponse ''Failed to fetch'' :: json fetched)) []
       \<lparr>q_data = None, q_error = []\<rparr> (Whole 1) ''booked''
     = (\<lparr>q_data = None, q_error = ''API error 400: invalid transition''\<rparr>,
        [updateQueueStatus (Whole 1) ''booked''])
   \<and> handleStatusChange
       (reply_with (Response \<lparr>res_ok = True, res_status = 200,
          res_text = ''{}'', res_json = Inr (JObj [])\<rparr>))
       (reply_with (Response \<lparr>res_ok = True, res_status = 200,
          res_text = ''[]'', res_json = Inr (JArr [])\<rparr>)) []
       \<lparr>q_data = None, q_error = []\<rparr> (Whole 1) ''contacted''
     = (\<lparr>q_data = Some (JArr []), q_error = []\<rparr>,
        [updateQueueStatus (Whole 1) ''contacted'', getQueue (url_filters [])])"
proof -
  let ?q = "\<lparr>qi_id = 1, qi_patient_id = 7, qi_cell_phone = None, qi_email = None,
       qi_tier = Warm, qi_score = 62, qi_status = Pending, qi_contact_attempts = 0,
       qi_last_contacted_at = None\<rparr>"
  let ?f = "reply_with (Response \<lparr>res_ok = False, res_status = 400,
          res_text = ''invalid transition'', res_json = (Inl ''Unexpected token'' :: string + json)\<rparr>)"
  let ?l = "reply_with (NoResponse ''Failed to fetch'' :: json fetched)"
  let ?g = "reply_with (Response \<lparr>res_ok = True, res_status = 200,
          res_text = ''{}'', res_json = Inr (JObj [])\<rparr>)"
  let ?m = "reply_with (Response \<lparr>res_ok = True, res_status = 200,
          res_text = ''[]'', res_json = Inr (JArr [])\<rparr>)"
  let ?p = "\<lparr>q_data = (None :: json option), q_error = []\<rparr>"
  have e: "fetchApi ?f (updateQueueStatus (Whole 1) ''booked'')
             = Inl (Error ''API error 400: invalid transition'')"
    by (simp add: fetchApi_def reply_with_def show_nat.simps)
  have o: "fetchApi ?g (updateQueueStatus (Whole 1) ''contacted'') = Inr (JObj [])"
    by (simp add: fetchApi_def reply_with_def)
  have l: "queue_load ?m [] ?p = (\<lparr>q_data = Some (JArr []), q_error = []\<rparr>, [getQueue (url_filters [])])"
    by (simp add: queue_load_def fetchApi_def reply_with_def)
  have n: "snd (setStatus ?q Booked) \<noteq> None" "snd (setStatus ?q Contacted) = None"
    by (simp_all add: setStatus_def)
  from setStatus_transitions [of ?q Booked ?f ?l "[]" ?p "Whole 1" "''booked''"]
  have "snd (setStatus ?q Booked) \<noteq> None \<longrightarrow> setStatus ?q Booked = (?q, Some InvalidTransition)"
    and "\<forall>e. fetchApi ?f (updateQueueStatus (Whole 1) ''booked'') = Inl e \<longrightarrow>
          handleStatusChange ?f ?l [] ?p (Whole 1) ''booked''
            = (?p\<lparr>q_error := message e\<rparr>, [updateQueueStatus (Whole 1) ''booked''])"
    by blast+
  moreover from setStatus_transitions [of ?q Contacted ?g ?m "[]" ?p "Whole 1" "''contacted''"]
  have "snd (setStatus ?q Contacted) = None \<longrightarrow>
          fst (setStatus ?q Contacted) = ?q\<lparr>qi_status := Contacted\<rparr>"
    and "\<forall>item. fetchApi ?g (updateQueueStatus (Whole 1) ''contacted'') = Inr item \<longrightarrow>
          handleStatusChange ?g ?m [] ?p (Whole 1) ''contacted''
            = (fst (queue_load ?m [] ?p),
               updateQueueStatus (Whole 1) ''contacted'' # snd (queue_load ?m [] ?p))"
    by blast+
  ultimately show ?thesis
    using e o l n by simp
qed

text \<open>
  The claim as stated fails in its last part: after a rejected update the page does not
  load the list again. The update of item 1 to booked is answered with 409; the only
  request is the PATCH, although the list request would have been answered, and the
  page's data are as before.
\<close>

theorem handleStatusChange_no_reload_counterexample:
  "handleStatusChange
     (reply_with (Response \<lparr>res_ok = False, res_status = 409,
        res_text = ''InvalidTransition'', res_json = (Inl ''Unexpected token'' :: string + json)\<rparr>))
     (reply_with (Response \<lparr>res_ok = True, res_status = 200,
        res_text = ''[]'', res_json = Inr (JArr [])\<rparr>)) []
     \<lparr>q_data = None, q_error = []\<rparr> (Whole 1) ''booked''
   = (\<lparr>q_data = None, q_error = ''API error 409: InvalidTransition''\<rparr>,
      [updateQueueStatus (Whole 1) ''booked''])
   \<and> getQueue (url_filters [])
       \<notin> set (snd (handleStatusChange
            (reply_with (Response \<lparr>res_ok = False, res_status = 409,
               res_text = ''InvalidTransition'',
               res_json = (Inl ''Unexpected token'' :: string + json)\<rparr>))
            (reply_with (Response \<lparr>res_ok = True, res_status = 200,
               res_text = ''[]'', res_json = Inr (JArr [])\<rparr>)) []
            \<lparr>q_data = None, q_error = []\<rparr> (Whole 1) ''booked''))
   \<and> queue_load
       (reply_with (Response \<lparr>res_ok = True, res_status = 200,
          res_text = ''[]'', res_json = Inr (JArr [])\<rparr>)) []
       \<lparr>q_data = None, q_error = []\<rparr>
     = (\<lparr>q_data = Some (JArr []), q_error = []\<rparr>, [getQueue (url_filters [])])"
  by (simp add: handleStatusChange_def queue_load_def fetchApi_def reply_with_def
        show_nat.simps updateQueueStatus_def getQueue_def GET_def)

section \<open>Creating a campaign\<close>

text \<open>
  Claim C7. When the campaign name is blank after trimming, or the message template is,
  or the channel is email and the subject is, \<^verbatim>\<open>handleSubmit\<close> issues no request
  (\<^verbatim>\<open>createCampaign\<close> is not called), sets one of its three error messages and changes
  nothing else of the page. In every other case it calls \<^verbatim>\<open>createCampaign\<close> once.
\<close>

theorem handleSubmit_rejects:
  "(snd (handleSubmit fetch p) = [] \<longleftrightarrow>
      trim (nc_name p) = [] \<or> trim (nc_messageTemplate p) = []
      \<or> (nc_channel p = Email \<and> trim (nc_subject p) = []))
   \<and> (snd (handleSubmit fetch p) = [] \<longrightarrow>
        nc_error (fst (handleSubmit fetch p)) \<in>
          {''Campaign name is required'', ''Message template is required'',
           ''Email subject is required''}
        \<and> fst (handleSubmit fetch p) = p\<lparr>nc_error := nc_error (fst (handleSubmit fetch p))\<rparr>)
   \<and> (snd (handleSubmit fetch p) \<noteq> [] \<longrightarrow>
        (\<exists>data. snd (handleSubmit fetch p) = [createCampaign data]))"
  by (auto simp: handleSubmit_def Let_def split: sum.splits)

theorem handleSubmit_rejects_witness:
  "handleSubmit (reply_with (NoResponse ''Failed to fetch''))
     \<lparr>nc_name = ''  '', nc_channel = Sms, nc_tierFilter = ''warm'', nc_scoreMin = 50,
      nc_messageTemplate = ''Hi {called_name}'', nc_subject = ''We miss you'',
      nc_submitting = False, nc_error = [], nc_pushed = None\<rparr>
   = (\<lparr>nc_name = ''  '', nc_channel = Sms, nc_tierFilter = ''warm'', nc_scoreMin = 50,
      nc_messageTemplate = ''Hi {called_name}'', nc_subject = ''We miss you'',
      nc_submitting = False, nc_error = ''Campaign name is required'', nc_pushed = None\<rparr>, [])
   \<and> snd (handleSubmit (reply_with (NoResponse ''Failed to fetch''))
     \<lparr>nc_name = ''Spring'', nc_channel = Email, nc_tierFilter = [], nc_scoreMin = 0,
      nc_messageTemplate = ''Hi {called_name}'', nc_subject = [],
      nc_submitting = False, nc_error = [], nc_pushed = None\<rparr>) = []
   \<and> snd (handleSubmit (reply_with (NoResponse ''Failed to fetch''))
     \<lparr>nc_name = ''Spring'', nc_channel = Email, nc_tierFilter = [], nc_scoreMin = 0,
      nc_messageTemplate = ''Hi {called_name}'', nc_subject = ''We miss you'',
      nc_submitting = False, nc_error = [], nc_pushed = None\<rparr>) \<noteq> []"
proof -
  let ?f = "reply_with (NoResponse ''Failed to fetch'') :: request \<Rightarrow> Campaign fetched"
  let ?p = "\<lparr>nc_name = ''  '', nc_channel = Sms, nc_tierFilter = ''warm'', nc_scoreMin = 50,
      nc_messageTemplate = ''Hi {called_name}'', nc_subject = ''We miss you'',
      nc_submitting = False, nc_error = [], nc_pushed = None\<rparr>"
  let ?p2 = "\<lparr>nc_name = ''Spring'', nc_channel = Email, nc_tierFilter = [], nc_scoreMin = 0,
      nc_messageTemplate = ''Hi {called_name}'', nc_subject = [],
      nc_submitting = False, nc_error = [], nc_pushed = None\<rparr>"
  let ?p3 = "\<lparr>nc_name = ''Spring'', nc_channel = Email, nc_tierFilter = [], nc_scoreMin = 0,
      nc_messageTemplate = ''Hi {called_name}'', nc_subject = ''We miss you'',
      nc_submitting = False, nc_error = [], nc_pushed = None\<rparr>"
  have t: "trim (nc_name ?p) = []" "nc_channel ?p2 = Email \<and> trim (nc_subject ?p2) = []"
    by (simp_all add: trim_def js_whitespace_def)
  have v: "\<not> (trim (nc_name ?p3) = [] \<or> trim (nc_messageTemplate ?p3) = []
      \<or> (nc_channel ?p3 = Email \<and> trim (nc_subject ?p3) = []))"
    by (simp add: trim_def js_whitespace_def)
  from handleSubmit_rejects [of ?f ?p] t(1) have "snd (handleSubmit ?f ?p) = []"
    by blast
  moreover from handleSubmit_rejects [of ?f ?p2] t(2) have "snd (handleSubmit ?f ?p2) = []"
    by blast
  moreover from handleSubmit_rejects [of ?f ?p3] v have "snd (handleSubmit ?f ?p3) \<noteq> []"
    by blast
  moreover have "fst (handleSubmit ?f ?p) = ?p\<lparr>nc_error := ''Campaign name is required''\<rparr>"
    using t(1) by (simp add: handleSubmit_def)
  ultimately show ?thesis by (simp add: prod_eq_iff)
qed

section \<open>fetchApi\<close>

text \<open>
  Claim C8, as amended. For a response that is not ok, \<^verbatim>\<open>fetchApi\<close> throws an
  \<^verbatim>\<open>Error\<close> whose message is \<^verbatim>\<open>API error\<close>, the status, a colon and a space, and the
  body text; it returns no value. For a response that is ok it settles as
  \<^verbatim>\<open>res.json()\<close> does: it returns the parsed body, or throws the \<^verbatim>\<open>SyntaxError\<close> of a
  body that is not JSON. So it returns a value exactly when the response is ok and its
  body parses.
\<close>

theorem fetchApi_response:
  assumes "fetch (init\<lparr>req_headers := (''Content-Type'', ''application/json'') # req_headers init\<rparr>)
             = Response res"
  shows "(\<not> res_ok res \<longrightarrow>
            fetchApi fetch init
              = Inl (Error (''API error '' @ show_nat (res_status res) @ '': '' @ res_text res)))
       \<and> (res_ok res \<longrightarrow>
            fetchApi fetch init
              = (case res_json res of Inl m \<Rightarrow> Inl (SyntaxError m) | Inr v \<Rightarrow> Inr v))
       \<and> ((\<exists>v. fetchApi fetch init = Inr v) \<longleftrightarrow> res_ok res \<and> (\<exists>v. res_json res = Inr v))"
  using assms by (auto simp: fetchApi_def split: sum.splits)

theorem fetchApi_response_witness:
  "fetchApi (reply_with (Response \<lparr>res_ok = False, res_status = 404,
       res_text = ''Not Found'', res_json = Inl ''Unexpected token''\<rparr>))
     (getCampaign (Whole 7))
     = (Inl (Error ''API error 404: Not Found'') :: js_error + json)
   \<and> fetchApi (reply_with (Response \<lparr>res_ok = True, res_status = 200,
       res_text = ''{mock_mode:true}'', res_json = Inr (JObj [(''mock_mode'', JBool True)])\<rparr>))
     getCommsStatus
     = Inr (JObj [(''mock_mode'', JBool True)])"
  using fetchApi_response [of "reply_with (Response \<lparr>res_ok = False, res_status = 404,
       res_text = ''Not Found'', res_json = (Inl ''Unexpected token'' :: string + json)\<rparr>)"
       "getCampaign (Whole 7)"]
    fetchApi_response [of "reply_with (Response \<lparr>res_ok = True, res_status = 200,
       res_text = ''{mock_mode:true}'', res_json = Inr (JObj [(''mock_mode'', JBool True)])\<rparr>)"
       getCommsStatus]
  by (simp add: reply_with_def show_nat.simps)

text \<open>
  The claim as stated fails for an ok response whose body is not JSON (an empty body,
  say): \<^verbatim>\<open>fetchApi\<close> raises although the response is ok.
\<close>

theorem fetchApi_ok_raises_counterexample:
  "res_ok \<lparr>res_ok = True, res_status = 200, res_text = [],
       res_json = (Inl ''Unexpected end of JSON input'' :: string + json)\<rparr>
   \<and> fetchApi (reply_with (Response \<lparr>res_ok = True, res_status = 200, res_text = [],
       res_json = Inl ''Unexpected end of JSON input''\<rparr>)) getCommsStatus
     = (Inl (SyntaxError ''Unexpected end of JSON input'') :: js_error + json)"
  by (simp add: fetchApi_def reply_with_def)

section \<open>Agent tasks\<close>

text \<open>
  Claim C10. The agent form's \<^verbatim>\<open>handleSubmit\<close> first calls \<^verbatim>\<open>submitAgentTask\<close> with
  the selected task, the parameters built from the form, and \<^verbatim>\<open>confirmed\<close> true exactly
  when the selected task is \<^verbatim>\<open>sync_patients\<close>; every other task, \<^verbatim>\<open>book_appointment\<close> and
  \<^verbatim>\<open>update_record\<close> among them, is submitted with \<^verbatim>\<open>confirmed\<close> false. The requests
  after it are the reload's, which are GET requests. The session page calls
  \<^verbatim>\<open>confirmAgentTask\<close> only from \<^verbatim>\<open>handleConfirm\<close>, whose button is rendered for a
  session that awaits confirmation.
\<close>

theorem agent_autoConfirm:
  "hd (snd (agent_handleSubmit fetch_t fetch_s fetch_l p))
     = submitAgentTask (selectedTask p) (buildParams p) (selectedTask p = ''sync_patients'')
   \<and> (tl (snd (agent_handleSubmit fetch_t fetch_s fetch_l p)) = []
        \<or> tl (snd (agent_handleSubmit fetch_t fetch_s fetch_l p))
            = [getAgentStatus, getAgentSessions [''per_page'' \<mapsto> PNum 20]])
   \<and> (body_field ''confirmed'' (hd (snd (agent_handleSubmit fetch_t fetch_s fetch_l p)))
          = Some (JBool True)
        \<longleftrightarrow> selectedTask p = ''sync_patients'')
   \<and> (selectedTask p \<noteq> ''sync_patients'' \<longrightarrow>
        body_field ''confirmed'' (hd (snd (agent_handleSubmit fetch_t fetch_s fetch_l p)))
          = Some (JBool False))
   \<and> (confirmButton sp \<longleftrightarrow>
        (\<exists>session. sp_session sp = Some session
           \<and> as_status session = Some ''awaiting_confirmation''))"
proof -
  have a: "hd (snd (agent_handleSubmit fetch_t fetch_s fetch_l p))
     = submitAgentTask (selectedTask p) (buildParams p) (selectedTask p = ''sync_patients'')"
    by (simp add: agent_handleSubmit_def Let_def split: sum.splits prod.splits)
  have b: "tl (snd (agent_handleSubmit fetch_t fetch_s fetch_l p)) = []
        \<or> tl (snd (agent_handleSubmit fetch_t fetch_s fetch_l p))
            = [getAgentStatus, getAgentSessions [''per_page'' \<mapsto> PNum 20]]"
    by (auto simp: agent_handleSubmit_def agent_load_def Let_def split: sum.splits prod.splits)
  have c: "body_field ''confirmed'' (submitAgentTask t ps b) = Some (JBool b)" for t ps b
    by (simp add: submitAgentTask_def POST_def body_field_def)
  have d: "confirmButton sp \<longleftrightarrow>
        (\<exists>session. sp_session sp = Some session
           \<and> as_status session = Some ''awaiting_confirmation'')"
    by (simp add: confirmButton_def split: option.splits)
  from a b c d show ?thesis by simp
qed

theorem agent_autoConfirm_witness:
  "body_field ''confirmed''
     (hd (snd (agent_handleSubmit (reply_with (NoResponse ''Failed to fetch'' :: json fetched))
        (reply_with (NoResponse ''Failed to fetch'' :: json fetched))
        (reply_with (NoResponse ''Failed to fetch'' :: json fetched))
        \<lparr>selectedTask = ''update_record'', accountId = ''A100'', apptDate = [], apptTime = [],
         provider = [], updateEmail = '' pat@example.org '', updatePhone = [],
         updateAddress = [], ag_status = None, ag_sessions = None, ag_submitting = False,
         ag_error = []\<rparr>)))
     = Some (JBool False)
   \<and> body_field ''confirmed''
     (hd (snd (agent_handleSubmit (reply_with (NoResponse ''Failed to fetch'' :: json fetched))
        (reply_with (NoResponse ''Failed to fetch'' :: json fetched))
        (reply_with (NoResponse ''Failed to fetch'' :: json fetched))
        \<lparr>selectedTask = ''sync_patients'', accountId = [], apptDate = [], apptTime = [],
         provider = [], updateEmail = [], updatePhone = [],
         updateAddress = [], ag_status = None, ag_sessions = None, ag_submitting = False,
         ag_error = []\<rparr>)))
     = Some (JBool True)"
proof -
  let ?f = "reply_with (NoResponse ''Failed to fetch'' :: json fetched)"
  let ?p1 = "\<lparr>selectedTask = ''update_record'', accountId = ''A100'', apptDate = [], apptTime = [],
         provider = [], updateEmail = '' pat@example.org '', updatePhone = [],
         updateAddress = [], ag_status = (None :: json option), ag_sessions = (None :: json option),
         ag_submitting = False, ag_error = []\<rparr>"
  let ?p2 = "\<lparr>selectedTask = ''sync_patients'', accountId = [], apptDate = [], apptTime = [],
         provider = [], updateEmail = [], updatePhone = [],
         updateAddress = [], ag_status = (None :: json option), ag_sessions = (None :: json option),
         ag_submitting = False, ag_error = []\<rparr>"
  let ?sp = "\<lparr>sp_session = None, sp_screenshots = ([] :: json list), sp_error = [],
         sp_acting = False\<rparr>"
  have t: "selectedTask ?p1 \<noteq> ''sync_patients''" "selectedTask ?p2 = ''sync_patients''"
    by simp_all
  from agent_autoConfirm [of ?f ?f ?f ?p1 ?sp] t(1)
  have "body_field ''confirmed'' (hd (snd (agent_handleSubmit ?f ?f ?f ?p1))) = Some (JBool False)"
    by blast
  moreover from agent_autoConfirm [of ?f ?f ?f ?p2 ?sp] t(2)
  have "body_field ''confirmed'' (hd (snd (agent_handleSubmit ?f ?f ?f ?p2))) = Some (JBool True)"
    by blast
  ultimately show ?thesis by blast
qed

section \<open>The template preview\<close>
























section \<open>The rates\<close>


lemma ilog2_less:
  assumes "0 < x"
  shows "x < 2 powi (ilog2 x + 1)"
proof -
  obtain p q where pq: "quotient_of x = (p, q)" by (cases "quotient_of x")
  then have q: "0 < q" and x: "x = of_int p / of_int q"
    by (auto dest: quotient_of_denom_pos quotient_of_div)
  with assms have p: "0 < p"
    by (simp add: zero_less_divide_iff)
  let ?k = "bitlen p - bitlen q"
  show ?thesis
  proof (cases "2 powi ?k \<le> x")
    case False
    then show ?thesis by (simp add: ilog2_def pq)
  next
    case True
    have bp: "1 \<le> bitlen p" and bq: "1 \<le> bitlen q"
      using p q by (auto simp: bitlen_alt_def)
    have hi: "of_int p < (2::rat) ^ nat (bitlen p)"
      using bitlen_bounds [OF p] by (metis of_int_less_iff of_int_numeral of_int_power)
    have lo: "(2::rat) ^ nat (bitlen q - 1) \<le> of_int q"
      using bitlen_bounds [OF q] by (metis of_int_le_iff of_int_numeral of_int_power)
    have "of_int p / of_int q < (2::rat) ^ nat (bitlen p) / of_int q"
      using hi q by (simp add: divide_strict_right_mono)
    also have "\<dots> \<le> 2 ^ nat (bitlen p) / 2 ^ nat (bitlen q - 1)"
      by (rule divide_left_mono [OF lo]) (use q in simp_all)
    also have "\<dots> = 2 powi (bitlen p) / 2 powi (bitlen q - 1)"
      using bp bq by (simp add: power_int_def)
    also have "\<dots> = 2 powi (bitlen p - (bitlen q - 1))"
      by (rule power_int_diff [symmetric]) simp
    also have "bitlen p - (bitlen q - 1) = ?k + 1" by simp
    finally have "x < 2 powi (?k + 1)"
      by (simp only: x)
    then show ?thesis
      using True by (simp add: ilog2_def pq)
  qed
qed














end
